theory Spec2Isabelle
  imports Main
begin

section \<open>Python values and library operations used by the gateway\<close>

text \<open>
  The gateway is the Python module \<^verbatim>\<open>vnpy_ib/ib_gateway_jason.py\<close>. The theory
  embeds its symbol codec (\<^verbatim>\<open>generate_ib_contract\<close>, \<^verbatim>\<open>generate_symbol\<close>), the
  callbacks of \<^verbatim>\<open>IbApi\<close> for the connection, the ticks, the orders and the historical
  bars, the subscription worker, and the inbound operations \<^verbatim>\<open>subscribe\<close>,
  \<^verbatim>\<open>send_order\<close>, \<^verbatim>\<open>query_history\<close> and \<^verbatim>\<open>close\<close>. The callbacks for accounts,
  positions, contract details and executions, the export of the contract table,
  \<^verbatim>\<open>cancel_order\<close>, \<^verbatim>\<open>connect\<close> and \<^verbatim>\<open>check_connection\<close> are left out; no
  property below depends on them.

  Exceptions are values of the type \<open>pyerr\<close>; a computation that may raise has the
  type \<open>pyerr + 'a\<close>, with \<open>Inl\<close> for the raised exception.
\<close>

datatype pyerr = IndexError | KeyError | ValueError | AttributeError | TypeError
  | UnknownTimeZoneError

definition bindE :: "pyerr + 'a \<Rightarrow> ('a \<Rightarrow> pyerr + 'b) \<Rightarrow> pyerr + 'b" where
  "bindE m f = (case m of Inl e \<Rightarrow> Inl e | Inr x \<Rightarrow> f x)"

text \<open>\<^verbatim>\<open>d[k]\<close> on a dictionary: a missing key raises KeyError.\<close>

definition dict_item :: "('k \<rightharpoonup> 'v) \<Rightarrow> 'k \<Rightarrow> pyerr + 'v" where
  "dict_item d k = (case d k of None \<Rightarrow> Inl KeyError | Some v \<Rightarrow> Inr v)"

text \<open>
  \<^verbatim>\<open>xs[i]\<close> on a list: negative indices count from the end, an index out of range
  raises IndexError.
\<close>

definition list_item :: "'a list \<Rightarrow> int \<Rightarrow> pyerr + 'a" where
  "list_item xs i =
     (if 0 \<le> i \<and> i < int (length xs) then Inr (xs ! nat i)
      else if i < 0 \<and> - i \<le> int (length xs) then Inr (xs ! nat (int (length xs) + i))
      else Inl IndexError)"

text \<open>
  \<^verbatim>\<open>s.split(sep)\<close> for a separator of one character: the result always has at
  least one field, and \<^verbatim>\<open>"".split("-") == [""]\<close>.
\<close>

fun split_char :: "char \<Rightarrow> string \<Rightarrow> string list" where
  "split_char c [] = [[]]"
| "split_char c (x # xs) =
     (if x = c then [] # split_char c xs
      else (case split_char c xs of
              [] \<Rightarrow> [[x]]
            | w # ws \<Rightarrow> (x # w) # ws))"

text \<open>\<^verbatim>\<open>sep.join(fields)\<close>.\<close>

fun join :: "string \<Rightarrow> string list \<Rightarrow> string" where
  "join sep [] = []"
| "join sep [x] = x"
| "join sep (x # y # ys) = x @ sep @ join sep (y # ys)"

text \<open>\<^verbatim>\<open>sub in s\<close> on strings.\<close>

fun starts_with :: "string \<Rightarrow> string \<Rightarrow> bool" where
  "starts_with s [] = True"
| "starts_with [] (p # ps) = False"
| "starts_with (x # xs) (p # ps) = (x = p \<and> starts_with xs ps)"

fun str_contains :: "string \<Rightarrow> string \<Rightarrow> bool" where
  "str_contains sub [] = (sub = [])"
| "str_contains sub (x # xs) = (starts_with (x # xs) sub \<or> str_contains sub xs)"

text \<open>
  \<^verbatim>\<open>int(s)\<close> on a string of ASCII characters: surrounding white space is stripped,
  one sign is allowed, and single underscores may separate digits. Anything else raises
  ValueError.
\<close>

definition is_space :: "char \<Rightarrow> bool" where
  "is_space c \<longleftrightarrow>
     c \<in> set [CHR '' '', CHR 0x09, CHR 0x0A, CHR 0x0B, CHR 0x0C, CHR 0x0D,
                CHR 0x1C, CHR 0x1D, CHR 0x1E, CHR 0x1F]"

definition digit_val :: "char \<rightharpoonup> nat" where
  "digit_val =
     map_of [(CHR ''0'', 0), (CHR ''1'', 1), (CHR ''2'', 2), (CHR ''3'', 3), (CHR ''4'', 4),
       (CHR ''5'', 5), (CHR ''6'', 6), (CHR ''7'', 7), (CHR ''8'', 8), (CHR ''9'', 9)]"

definition strip :: "string \<Rightarrow> string" where
  "strip s = rev (dropWhile is_space (rev (dropWhile is_space s)))"

fun digits_value :: "nat \<Rightarrow> string \<Rightarrow> nat option" where
  "digits_value acc [] = Some acc"
| "digits_value acc (c # cs) =
     (case digit_val c of
        Some d \<Rightarrow> digits_value (10 * acc + d) cs
      | None \<Rightarrow>
          (if c = CHR ''_'' then
             (case cs of
                [] \<Rightarrow> None
              | c' # _ \<Rightarrow> (if digit_val c' = None then None else digits_value acc cs))
           else None))"

definition nat_of_str :: "string \<Rightarrow> nat option" where
  "nat_of_str s =
     (case s of
        [] \<Rightarrow> None
      | c # _ \<Rightarrow> (if digit_val c = None then None else digits_value 0 s))"

definition py_int :: "string \<Rightarrow> pyerr + int" where
  "py_int s =
     (case strip s of
        [] \<Rightarrow> Inl ValueError
      | c # cs \<Rightarrow>
          (if c = CHR ''-'' then
             (case nat_of_str cs of None \<Rightarrow> Inl ValueError | Some n \<Rightarrow> Inr (- int n))
           else if c = CHR ''+'' then
             (case nat_of_str cs of None \<Rightarrow> Inl ValueError | Some n \<Rightarrow> Inr (int n))
           else
             (case nat_of_str (c # cs) of None \<Rightarrow> Inl ValueError | Some n \<Rightarrow> Inr (int n))))"

text \<open>\<^verbatim>\<open>str(n)\<close> on an integer.\<close>

definition digit_char :: "nat \<Rightarrow> char" where
  "digit_char d = ''0123456789'' ! d"

fun str_of_nat :: "nat \<Rightarrow> string" where
  "str_of_nat n = (if n < 10 then [digit_char n] else str_of_nat (n div 10) @ [digit_char (n mod 10)])"

declare str_of_nat.simps [simp del]

definition str_of_int :: "int \<Rightarrow> string" where
  "str_of_int i = (if i < 0 then CHR ''-'' # str_of_nat (nat (- i)) else str_of_nat (nat i))"

text \<open>
  Floating-point numbers, \<^verbatim>\<open>Decimal\<close> values and \<^verbatim>\<open>datetime\<close> objects are not
  interpreted. Their types are the parameters \<open>'n\<close> and \<open>'dt\<close>, and the operations of
  the Python runtime and of \<^verbatim>\<open>pytz\<close> that the gateway applies to them are the fields
  of one record, passed to every function that uses one of them.
\<close>

record ('n, 'dt) pylib =
  float_of_str :: "string \<Rightarrow> 'n option"
    \<comment> \<open>\<^verbatim>\<open>float(s)\<close>; \<open>None\<close> is ValueError\<close>
  str_of_float :: "'n \<Rightarrow> string"
    \<comment> \<open>\<^verbatim>\<open>str(x)\<close> on a float\<close>
  float_of_decimal :: "'n \<Rightarrow> 'n"
    \<comment> \<open>\<^verbatim>\<open>float(d)\<close> on a Decimal\<close>
  is_falsy :: "'n \<Rightarrow> bool"
    \<comment> \<open>\<^verbatim>\<open>not x\<close> on a number\<close>
  is_negative :: "'n \<Rightarrow> bool"
    \<comment> \<open>\<^verbatim>\<open>x < 0\<close>\<close>
  num_zero :: "'n"
    \<comment> \<open>the number \<^verbatim>\<open>0\<close>\<close>
  default_strike :: "'n"
    \<comment> \<open>the strike of a fresh \<^verbatim>\<open>Contract()\<close>\<close>
  unset_double :: "'n"
    \<comment> \<open>the limit and auxiliary price of a fresh \<^verbatim>\<open>Order()\<close>\<close>
  round_mid5 :: "'n \<Rightarrow> 'n \<Rightarrow> 'n"
    \<comment> \<open>\<^verbatim>\<open>round((a + b) / 2, 5)\<close>\<close>
  strptime_date :: "string \<Rightarrow> 'dt option"
    \<comment> \<open>\<^verbatim>\<open>datetime.strptime(s, "%Y%m%d")\<close>; \<open>None\<close> is ValueError\<close>
  strptime_datetime :: "string \<Rightarrow> 'dt option"
    \<comment> \<open>\<^verbatim>\<open>datetime.strptime(s, "%Y%m%d %H:%M:%S")\<close>; \<open>None\<close> is ValueError\<close>
  timezone_known :: "string \<Rightarrow> bool"
    \<comment> \<open>whether \<^verbatim>\<open>pytz.timezone(name)\<close> returns; otherwise UnknownTimeZoneError\<close>
  localize :: "string \<Rightarrow> 'dt \<Rightarrow> 'dt"
    \<comment> \<open>\<^verbatim>\<open>pytz.timezone(name).localize(dt)\<close>\<close>
  astimezone_shanghai :: "'dt \<Rightarrow> 'dt"
    \<comment> \<open>\<^verbatim>\<open>dt.astimezone(pytz.timezone("Asia/Shanghai"))\<close>\<close>
  replace_tzinfo_local :: "'dt \<Rightarrow> 'dt"
    \<comment> \<open>\<^verbatim>\<open>dt.replace(tzinfo=LOCAL_TZ)\<close>\<close>
  strftime_datetime :: "'dt \<Rightarrow> string"
    \<comment> \<open>\<^verbatim>\<open>dt.strftime("%Y%m%d %H:%M:%S")\<close>\<close>
  delta_days :: "'dt \<Rightarrow> 'dt \<Rightarrow> int option"
    \<comment> \<open>\<^verbatim>\<open>(a - b).days\<close>; \<open>None\<close> is the TypeError of mixing naive and aware values\<close>

section \<open>Constants of the trading framework and the mapping tables\<close>

text \<open>
  The enumerations come from \<^verbatim>\<open>vnpy.trader.constant\<close>. \<open>Exchange\<close> lists the members
  that \<^verbatim>\<open>EXCHANGE_VT2IB\<close> maps; every other member is \<open>OTHER_EXCHANGE\<close> with its value.
\<close>

datatype Exchange =
    SMART | NYMEX | COMEX | GLOBEX | IDEALPRO | CME | CBOT | CBOE | ICE | SEHK
  | SSE | SZSE | HKFE | CFE | TSE | NYSE | NASDAQ | AMEX | ARCA | EDGEA
  | ISLAND | BATS | IEX | IBKRATS | OTC | SGX
  | OTHER_EXCHANGE string

datatype OrderType = LIMIT | MARKET | STOP | FAK | FOK | RFQ

datatype Direction = LONG | SHORT | NET

datatype Status = SUBMITTING | NOTTRADED | PARTTRADED | ALLTRADED | CANCELLED | REJECTED

datatype Interval = MINUTE | HOUR | DAILY | WEEKLY | TICK

datatype Product = EQUITY | FUTURES | OPTION | INDEX | FOREX | SPOT | ETF | BOND | WARRANT
  | SPREAD | FUND

fun EXCHANGE_VT2IB :: "Exchange \<rightharpoonup> string" where
  "EXCHANGE_VT2IB SMART = Some ''SMART''"
| "EXCHANGE_VT2IB NYMEX = Some ''NYMEX''"
| "EXCHANGE_VT2IB COMEX = Some ''COMEX''"
| "EXCHANGE_VT2IB GLOBEX = Some ''GLOBEX''"
| "EXCHANGE_VT2IB IDEALPRO = Some ''IDEALPRO''"
| "EXCHANGE_VT2IB CME = Some ''CME''"
| "EXCHANGE_VT2IB CBOT = Some ''CBOT''"
| "EXCHANGE_VT2IB CBOE = Some ''CBOE''"
| "EXCHANGE_VT2IB ICE = Some ''ICE''"
| "EXCHANGE_VT2IB SEHK = Some ''SEHK''"
| "EXCHANGE_VT2IB SSE = Some ''SEHKNTL''"
| "EXCHANGE_VT2IB SZSE = Some ''SEHKSZSE''"
| "EXCHANGE_VT2IB HKFE = Some ''HKFE''"
| "EXCHANGE_VT2IB CFE = Some ''CFE''"
| "EXCHANGE_VT2IB TSE = Some ''TSE''"
| "EXCHANGE_VT2IB NYSE = Some ''NYSE''"
| "EXCHANGE_VT2IB NASDAQ = Some ''NASDAQ''"
| "EXCHANGE_VT2IB AMEX = Some ''AMEX''"
| "EXCHANGE_VT2IB ARCA = Some ''ARCA''"
| "EXCHANGE_VT2IB EDGEA = Some ''EDGEA''"
| "EXCHANGE_VT2IB ISLAND = Some ''ISLAND''"
| "EXCHANGE_VT2IB BATS = Some ''BATS''"
| "EXCHANGE_VT2IB IEX = Some ''IEX''"
| "EXCHANGE_VT2IB IBKRATS = Some ''IBKRATS''"
| "EXCHANGE_VT2IB OTC = Some ''PINK''"
| "EXCHANGE_VT2IB SGX = Some ''SGX''"
| "EXCHANGE_VT2IB (OTHER_EXCHANGE v) = None"

definition EXCHANGE_IB2VT :: "string \<rightharpoonup> Exchange" where
  "EXCHANGE_IB2VT =
     map_of [(''SMART'', SMART), (''NYMEX'', NYMEX), (''COMEX'', COMEX), (''GLOBEX'', GLOBEX),
       (''IDEALPRO'', IDEALPRO), (''CME'', CME), (''CBOT'', CBOT), (''CBOE'', CBOE),
       (''ICE'', ICE), (''SEHK'', SEHK), (''SEHKNTL'', SSE), (''SEHKSZSE'', SZSE),
       (''HKFE'', HKFE), (''CFE'', CFE), (''TSE'', TSE), (''NYSE'', NYSE),
       (''NASDAQ'', NASDAQ), (''AMEX'', AMEX), (''ARCA'', ARCA), (''EDGEA'', EDGEA),
       (''ISLAND'', ISLAND), (''BATS'', BATS), (''IEX'', IEX), (''IBKRATS'', IBKRATS),
       (''PINK'', OTC), (''SGX'', SGX)]"

text \<open>\<^verbatim>\<open>exchange.value\<close>, the string of an enumeration member.\<close>

fun exchange_value :: "Exchange \<Rightarrow> string" where
  "exchange_value SMART = ''SMART''"
| "exchange_value NYMEX = ''NYMEX''"
| "exchange_value COMEX = ''COMEX''"
| "exchange_value GLOBEX = ''GLOBEX''"
| "exchange_value IDEALPRO = ''IDEALPRO''"
| "exchange_value CME = ''CME''"
| "exchange_value CBOT = ''CBOT''"
| "exchange_value CBOE = ''CBOE''"
| "exchange_value ICE = ''ICE''"
| "exchange_value SEHK = ''SEHK''"
| "exchange_value SSE = ''SSE''"
| "exchange_value SZSE = ''SZSE''"
| "exchange_value HKFE = ''HKFE''"
| "exchange_value CFE = ''CFE''"
| "exchange_value TSE = ''TSE''"
| "exchange_value NYSE = ''NYSE''"
| "exchange_value NASDAQ = ''NASDAQ''"
| "exchange_value AMEX = ''AMEX''"
| "exchange_value ARCA = ''ARCA''"
| "exchange_value EDGEA = ''EDGEA''"
| "exchange_value ISLAND = ''ISLAND''"
| "exchange_value BATS = ''BATS''"
| "exchange_value IEX = ''IEX''"
| "exchange_value IBKRATS = ''IBKRATS''"
| "exchange_value OTC = ''OTC''"
| "exchange_value SGX = ''SGX''"
| "exchange_value (OTHER_EXCHANGE v) = v"

definition STATUS_IB2VT :: "string \<rightharpoonup> Status" where
  "STATUS_IB2VT =
     map_of [(''ApiPending'', SUBMITTING), (''PendingSubmit'', SUBMITTING),
       (''PreSubmitted'', NOTTRADED), (''Submitted'', NOTTRADED),
       (''ApiCancelled'', CANCELLED), (''Cancelled'', CANCELLED),
       (''Filled'', ALLTRADED), (''Inactive'', REJECTED)]"

fun DIRECTION_VT2IB :: "Direction \<rightharpoonup> string" where
  "DIRECTION_VT2IB LONG = Some ''BUY''"
| "DIRECTION_VT2IB SHORT = Some ''SELL''"
| "DIRECTION_VT2IB NET = None"

definition DIRECTION_IB2VT :: "string \<rightharpoonup> Direction" where
  "DIRECTION_IB2VT = map_of [(''BUY'', LONG), (''SELL'', SHORT), (''BOT'', LONG), (''SLD'', SHORT)]"

fun ORDERTYPE_VT2IB :: "OrderType \<rightharpoonup> string" where
  "ORDERTYPE_VT2IB LIMIT = Some ''LMT''"
| "ORDERTYPE_VT2IB MARKET = Some ''MKT''"
| "ORDERTYPE_VT2IB STOP = Some ''STP''"
| "ORDERTYPE_VT2IB t = None"

definition ORDERTYPE_IB2VT :: "string \<rightharpoonup> OrderType" where
  "ORDERTYPE_IB2VT = map_of [(''LMT'', LIMIT), (''MKT'', MARKET), (''STP'', STOP)]"

fun INTERVAL_VT2IB :: "Interval \<rightharpoonup> string" where
  "INTERVAL_VT2IB MINUTE = Some ''1 min''"
| "INTERVAL_VT2IB HOUR = Some ''1 hour''"
| "INTERVAL_VT2IB DAILY = Some ''1 day''"
| "INTERVAL_VT2IB i = None"

definition JOIN_SYMBOL :: string where
  "JOIN_SYMBOL = ''-''"

section \<open>The symbol codec\<close>

text \<open>
  The fields of the broker's \<^verbatim>\<open>Contract\<close> that the gateway reads or writes. The
  multiplier is a string in a contract that the broker delivers and an integer where
  the gateway assigns it.
\<close>

datatype pyval = PyStr string | PyInt int

fun py_str :: "pyval \<Rightarrow> string" where
  "py_str (PyStr s) = s"
| "py_str (PyInt i) = str_of_int i"

record 'n Contract =
  c_symbol :: string
  c_secType :: string
  c_lastTradeDateOrContractMonth :: string
  c_strike :: 'n
  c_right :: string
  c_multiplier :: pyval
  c_exchange :: string
  c_currency :: string

text \<open>\<^verbatim>\<open>Contract()\<close>: every string field is empty.\<close>

definition new_Contract :: "('n, 'dt) pylib \<Rightarrow> 'n Contract" where
  "new_Contract L =
     \<lparr>c_symbol = [], c_secType = [], c_lastTradeDateOrContractMonth = [],
      c_strike = default_strike L, c_right = [], c_multiplier = PyStr [],
      c_exchange = [], c_currency = []\<rparr>"

text \<open>
  \<^verbatim>\<open>generate_ib_contract\<close>. The body of the \<^verbatim>\<open>try\<close> block comes first; the function
  itself turns an IndexError into the result \<^verbatim>\<open>None\<close> and lets every other exception
  pass.
\<close>

definition generate_ib_contract_try ::
    "('n, 'dt) pylib \<Rightarrow> string \<Rightarrow> Exchange \<Rightarrow> pyerr + 'n Contract" where
  "generate_ib_contract_try L symbol exchange =
     (let fields = split_char (CHR ''-'') symbol;
          ib0 = new_Contract L
      in
      bindE (dict_item EXCHANGE_VT2IB exchange) (\<lambda>ex.
      bindE (list_item fields (- 1)) (\<lambda>st.
      bindE (list_item fields (- 2)) (\<lambda>cur.
      bindE (list_item fields 0) (\<lambda>sym.
      let ib1 = ib0\<lparr>c_exchange := ex, c_secType := st, c_currency := cur, c_symbol := sym\<rparr>
      in
      bindE (if st \<in> set [''FUT'', ''OPT'', ''FOP'']
             then bindE (list_item fields 1)
                    (\<lambda>d. Inr (ib1\<lparr>c_lastTradeDateOrContractMonth := d\<rparr>))
             else Inr ib1) (\<lambda>ib2.
      bindE (if st = ''FUT'' \<and> length fields = 5
             then bindE (list_item fields 2) (\<lambda>m.
                  bindE (py_int m) (\<lambda>n. Inr (ib2\<lparr>c_multiplier := PyInt n\<rparr>)))
             else Inr ib2) (\<lambda>ib3.
      if st \<in> set [''OPT'', ''FOP'']
      then bindE (list_item fields 2) (\<lambda>r.
           bindE (list_item fields 3) (\<lambda>k.
           bindE (case float_of_str L k of None \<Rightarrow> Inl ValueError | Some x \<Rightarrow> Inr x) (\<lambda>x.
           bindE (list_item fields 4) (\<lambda>m.
           bindE (py_int m) (\<lambda>n.
           Inr (ib3\<lparr>c_right := r, c_strike := x, c_multiplier := PyInt n\<rparr>))))))
      else Inr ib3)))))))"

definition generate_ib_contract ::
    "('n, 'dt) pylib \<Rightarrow> string \<Rightarrow> Exchange \<Rightarrow> pyerr + 'n Contract option" where
  "generate_ib_contract L symbol exchange =
     (case generate_ib_contract_try L symbol exchange of
        Inl e \<Rightarrow> (if e = IndexError then Inr None else Inl e)
      | Inr ib \<Rightarrow> Inr (Some ib))"

text \<open>\<^verbatim>\<open>generate_symbol\<close>.\<close>

definition generate_symbol :: "('n, 'dt) pylib \<Rightarrow> 'n Contract \<Rightarrow> string" where
  "generate_symbol L ib_contract =
     (let fields0 = [c_symbol ib_contract];
          fields1 = (if c_secType ib_contract \<in> set [''FUT'', ''OPT'', ''FOP'']
                     then fields0 @ [c_lastTradeDateOrContractMonth ib_contract]
                     else fields0);
          fields2 = (if c_secType ib_contract \<in> set [''OPT'', ''FOP'']
                     then fields1 @ [c_right ib_contract,
                                     str_of_float L (c_strike ib_contract),
                                     py_str (c_multiplier ib_contract)]
                     else fields1)
      in join JOIN_SYMBOL (fields2 @ [c_currency ib_contract, c_secType ib_contract]))"

section \<open>Data objects\<close>

text \<open>
  The request and data classes come from \<^verbatim>\<open>vnpy.trader.object\<close>, \<^verbatim>\<open>Order\<close> and the
  bar of a historical query from the broker's library. Each record has the fields that
  the gateway reads or writes.
\<close>

text \<open>
  Modelled from the spec: the attribute \<^verbatim>\<open>vt_symbol\<close> of a request or a data object
  is computed by the trading framework. It is the key by which subscriptions are
  deduplicated, the concatenation of the symbol and the exchange; the framework puts a
  dot between the two.
\<close>

definition vt_symbol_of :: "string \<Rightarrow> Exchange \<Rightarrow> string" where
  "vt_symbol_of symbol exchange = symbol @ ''.'' @ exchange_value exchange"

record SubscribeRequest =
  sr_symbol :: string
  sr_exchange :: Exchange

definition sr_vt_symbol :: "SubscribeRequest \<Rightarrow> string" where
  "sr_vt_symbol req = vt_symbol_of (sr_symbol req) (sr_exchange req)"

record 'n OrderRequest =
  or_symbol :: string
  or_exchange :: Exchange
  or_direction :: Direction
  or_type :: OrderType
  or_volume :: 'n
  or_price :: 'n
  or_reference :: string

record ('n, 'dt) OrderData =
  od_symbol :: string
  od_exchange :: Exchange
  od_orderid :: string
  od_type :: OrderType
  od_direction :: Direction
  od_price :: 'n
  od_volume :: 'n
  od_traded :: 'n
  od_status :: Status
  od_datetime :: "'dt option"
  od_reference :: string
  od_gateway_name :: string

text \<open>
  Modelled from the spec: the attribute \<^verbatim>\<open>vt_orderid\<close> of an order record is
  computed by the trading framework. It is the reference of the record that
  \<^verbatim>\<open>send_order\<close> returns: the name of the gateway, a dot and the order id.
\<close>

definition od_vt_orderid :: "('n, 'dt) OrderData \<Rightarrow> string" where
  "od_vt_orderid order = od_gateway_name order @ ''.'' @ od_orderid order"

record 'dt HistoryRequest =
  hr_symbol :: string
  hr_exchange :: Exchange
  hr_start :: 'dt
  hr_end :: "'dt option"
  hr_interval :: "Interval option"

record ContractData =
  cd_symbol :: string
  cd_exchange :: Exchange
  cd_name :: string
  cd_product :: Product

record ('n, 'dt) TickData =
  td_symbol :: string
  td_exchange :: Exchange
  td_datetime :: 'dt
  td_name :: string
  td_bid_volume_1 :: 'n
  td_bid_price_1 :: 'n
  td_ask_price_1 :: 'n
  td_ask_volume_1 :: 'n
  td_last_price :: 'n
  td_last_volume :: 'n
  td_high_price :: 'n
  td_low_price :: 'n
  td_volume :: 'n
  td_pre_close :: 'n
  td_open_price :: 'n
  td_gateway_name :: string

record 'n IbBarData =
  ib_date :: string
  ib_open :: 'n
  ib_high :: 'n
  ib_low :: 'n
  ib_close :: 'n
  ib_volume :: 'n

record ('n, 'dt) BarData =
  bd_symbol :: string
  bd_exchange :: Exchange
  bd_datetime :: 'dt
  bd_interval :: "Interval option"
  bd_volume :: 'n
  bd_open_price :: 'n
  bd_high_price :: 'n
  bd_low_price :: 'n
  bd_close_price :: 'n
  bd_gateway_name :: string

record 'n Order =
  io_orderId :: int
  io_clientId :: int
  io_action :: string
  io_orderType :: string
  io_totalQuantity :: 'n
  io_account :: string
  io_outsideRth :: bool
  io_lmtPrice :: 'n
  io_auxPrice :: 'n

text \<open>
  Modelled from the spec: the constructors of the framework's data classes, as the
  gateway calls them, \<^verbatim>\<open>TickData(symbol, exchange, datetime, gateway_name)\<close> and
  \<^verbatim>\<open>OrderData(symbol, exchange, type, orderid, direction, volume, gateway_name)\<close>.
  The fields that are not given take the defaults of the class: zero for the numbers,
  and for the status of an order \<^verbatim>\<open>Status.SUBMITTING\<close>, the default value that the
  order-opened callback carries (the comment at the end of \<^verbatim>\<open>openOrder\<close> says that
  the status of its order is always submitting).
\<close>

definition new_TickData ::
    "('n, 'dt) pylib \<Rightarrow> string \<Rightarrow> Exchange \<Rightarrow> 'dt \<Rightarrow> string \<Rightarrow> ('n, 'dt) TickData" where
  "new_TickData L symbol exchange dt gw =
     \<lparr>td_symbol = symbol, td_exchange = exchange, td_datetime = dt, td_name = [],
      td_bid_volume_1 = num_zero L, td_bid_price_1 = num_zero L, td_ask_price_1 = num_zero L,
      td_ask_volume_1 = num_zero L, td_last_price = num_zero L, td_last_volume = num_zero L,
      td_high_price = num_zero L, td_low_price = num_zero L, td_volume = num_zero L,
      td_pre_close = num_zero L, td_open_price = num_zero L, td_gateway_name = gw\<rparr>"

definition new_OrderData ::
    "('n, 'dt) pylib \<Rightarrow> string \<Rightarrow> Exchange \<Rightarrow> OrderType \<Rightarrow> string \<Rightarrow> Direction \<Rightarrow> 'n \<Rightarrow> string
       \<Rightarrow> ('n, 'dt) OrderData" where
  "new_OrderData L symbol exchange type orderid direction volume gw =
     \<lparr>od_symbol = symbol, od_exchange = exchange, od_orderid = orderid, od_type = type,
      od_direction = direction, od_price = num_zero L, od_volume = volume,
      od_traded = num_zero L, od_status = SUBMITTING, od_datetime = None,
      od_reference = [], od_gateway_name = gw\<rparr>"

text \<open>
  Modelled from the spec: \<^verbatim>\<open>OrderRequest.create_order_data\<close> belongs to the trading
  framework and is not part of the gateway's source. It synthesizes the local order
  record of a request: the parameters of the request, the given order id, no traded
  volume and the status Submitting.
\<close>

definition create_order_data ::
    "('n, 'dt) pylib \<Rightarrow> 'n OrderRequest \<Rightarrow> string \<Rightarrow> string \<Rightarrow> ('n, 'dt) OrderData" where
  "create_order_data L req orderid gw =
     \<lparr>od_symbol = or_symbol req, od_exchange = or_exchange req, od_orderid = orderid,
      od_type = or_type req, od_direction = or_direction req, od_price = or_price req,
      od_volume = or_volume req, od_traded = num_zero L, od_status = SUBMITTING,
      od_datetime = None, od_reference = or_reference req, od_gateway_name = gw\<rparr>"

text \<open>\<^verbatim>\<open>Order()\<close>.\<close>

definition new_Order :: "('n, 'dt) pylib \<Rightarrow> 'n Order" where
  "new_Order L =
     \<lparr>io_orderId = 0, io_clientId = 0, io_action = [], io_orderType = [],
      io_totalQuantity = num_zero L, io_account = [], io_outsideRth = False,
      io_lmtPrice = unset_double L, io_auxPrice = unset_double L\<rparr>"

text \<open>
  \<^verbatim>\<open>TICKFIELD_IB2VT\<close> maps the broker's field code to the name of an attribute of the
  tick; \<^verbatim>\<open>setattr\<close> and \<^verbatim>\<open>getattr\<close> with such a name are the two functions below.
\<close>

datatype tick_attr =
    bid_volume_1 | bid_price_1 | ask_price_1 | ask_volume_1 | last_price | last_volume
  | high_price | low_price | volume | pre_close | open_price

definition TICKFIELD_IB2VT :: "int \<rightharpoonup> tick_attr" where
  "TICKFIELD_IB2VT =
     map_of [(0, bid_volume_1), (1, bid_price_1), (2, ask_price_1), (3, ask_volume_1),
       (4, last_price), (5, last_volume), (6, high_price), (7, low_price), (8, volume),
       (9, pre_close), (14, open_price)]"

fun setattr_tick :: "tick_attr \<Rightarrow> 'n \<Rightarrow> ('n, 'dt) TickData \<Rightarrow> ('n, 'dt) TickData" where
  "setattr_tick bid_volume_1 v t = t\<lparr>td_bid_volume_1 := v\<rparr>"
| "setattr_tick bid_price_1 v t = t\<lparr>td_bid_price_1 := v\<rparr>"
| "setattr_tick ask_price_1 v t = t\<lparr>td_ask_price_1 := v\<rparr>"
| "setattr_tick ask_volume_1 v t = t\<lparr>td_ask_volume_1 := v\<rparr>"
| "setattr_tick last_price v t = t\<lparr>td_last_price := v\<rparr>"
| "setattr_tick last_volume v t = t\<lparr>td_last_volume := v\<rparr>"
| "setattr_tick high_price v t = t\<lparr>td_high_price := v\<rparr>"
| "setattr_tick low_price v t = t\<lparr>td_low_price := v\<rparr>"
| "setattr_tick volume v t = t\<lparr>td_volume := v\<rparr>"
| "setattr_tick pre_close v t = t\<lparr>td_pre_close := v\<rparr>"
| "setattr_tick open_price v t = t\<lparr>td_open_price := v\<rparr>"

fun getattr_tick :: "tick_attr \<Rightarrow> ('n, 'dt) TickData \<Rightarrow> 'n" where
  "getattr_tick bid_volume_1 t = td_bid_volume_1 t"
| "getattr_tick bid_price_1 t = td_bid_price_1 t"
| "getattr_tick ask_price_1 t = td_ask_price_1 t"
| "getattr_tick ask_volume_1 t = td_ask_volume_1 t"
| "getattr_tick last_price t = td_last_price t"
| "getattr_tick last_volume t = td_last_volume t"
| "getattr_tick high_price t = td_high_price t"
| "getattr_tick low_price t = td_low_price t"
| "getattr_tick volume t = td_volume t"
| "getattr_tick pre_close t = td_pre_close t"
| "getattr_tick open_price t = td_open_price t"

section \<open>The state of the adapter and its effects\<close>

text \<open>
  What the gateway writes to the log, with the values that the message is formatted
  from; the events that it hands to the framework; the requests that it sends to the
  broker's client.
\<close>

datatype ('n, 'dt) log_msg =
    LogConnected
  | LogDisconnected
  | LogContractsLoaded
  | LogInfo int string
  | LogSubscribeUnsupportedExchange string Exchange
  | LogSubscribeParseFailed
  | LogSubscribeBefore int string
  | LogSubscribeAfter int string
  | LogOrderNotReady string Direction 'n 'n
  | LogUnsupportedExchange Exchange
  | LogUnsupportedOrderType OrderType
  | LogOrderStatus "('n, 'dt) OrderData"

datatype ('n, 'dt) gw_event =
    is_OnTick: OnTick "('n, 'dt) TickData"
  | OnOrder "('n, 'dt) OrderData"
  | OnContract ContractData
  | WriteLog "('n, 'dt) log_msg"

text \<open>The orders passed to \<^verbatim>\<open>gateway.on_order\<close>, oldest first.\<close>

fun published_orders :: "('n, 'dt) gw_event list \<Rightarrow> ('n, 'dt) OrderData list" where
  "published_orders [] = []"
| "published_orders (OnOrder order # es) = order # published_orders es"
| "published_orders (e # es) = published_orders es"

datatype 'n client_call =
    ReqCurrentTime
  | ReqContractDetails int "'n Contract"
  | ReqMktData int "'n Contract"
  | PlaceOrder int "'n Contract" "'n Order"
  | ReqIds int
  | ReqHistoricalData int "'n Contract option" string string string string
  | Disconnect

text \<open>
  The attributes of \<^verbatim>\<open>IbApi\<close> that the modelled methods use, followed by the effects:
  whether a caller is blocked in \<^verbatim>\<open>history_condition.wait()\<close>, the number of live
  threads that run \<^verbatim>\<open>subscribeRunner\<close>, the calls made on \<^verbatim>\<open>self.client\<close> and the
  events passed to \<^verbatim>\<open>self.gateway\<close>, both oldest first. \<^verbatim>\<open>subscribed\<close> is a dictionary
  whose values are read in insertion order, so it is an association list.
\<close>

record ('n, 'dt) IbApi =
  gateway_name :: string
  status :: bool
  reqid :: int
  orderid :: int
  clientid :: int
  history_reqid :: int
  account :: string
  ticks :: "int \<rightharpoonup> ('n, 'dt) TickData"
  orders :: "string \<rightharpoonup> ('n, 'dt) OrderData"
  contracts :: "string \<rightharpoonup> ContractData"
  tick_exchange :: "int \<rightharpoonup> Exchange"
  subscribed :: "(string \<times> SubscribeRequest) list"
  data_ready :: bool
  order_ready :: bool
  subscribeRequest_queue :: "SubscribeRequest list"
  history_req :: "'dt HistoryRequest option"
  history_buf :: "('n, 'dt) BarData list"
  history_waiting :: bool
  subscribe_threads :: nat
  client_calls :: "'n client_call list"
  gateway_events :: "('n, 'dt) gw_event list"

text \<open>\<^verbatim>\<open>IbApi.__init__\<close>.\<close>

definition init_IbApi :: "string \<Rightarrow> ('n, 'dt) IbApi" where
  "init_IbApi gw =
     \<lparr>gateway_name = gw, status = False, reqid = 0, orderid = 0, clientid = 0,
      history_reqid = 0, account = [], ticks = Map.empty, orders = Map.empty,
      contracts = Map.empty, tick_exchange = Map.empty, subscribed = [],
      data_ready = False, order_ready = False, subscribeRequest_queue = [],
      history_req = None, history_buf = [], history_waiting = False,
      subscribe_threads = 0, client_calls = [], gateway_events = []\<rparr>"

definition write_log :: "('n, 'dt) log_msg \<Rightarrow> ('n, 'dt) IbApi \<Rightarrow> ('n, 'dt) IbApi" where
  "write_log m s = s\<lparr>gateway_events := gateway_events s @ [WriteLog m]\<rparr>"

definition emit :: "('n, 'dt) gw_event \<Rightarrow> ('n, 'dt) IbApi \<Rightarrow> ('n, 'dt) IbApi" where
  "emit e s = s\<lparr>gateway_events := gateway_events s @ [e]\<rparr>"

definition client_call :: "'n client_call \<Rightarrow> ('n, 'dt) IbApi \<Rightarrow> ('n, 'dt) IbApi" where
  "client_call c s = s\<lparr>client_calls := client_calls s @ [c]\<rparr>"

text \<open>
  \<^verbatim>\<open>history_condition.notify()\<close> between \<^verbatim>\<open>acquire\<close> and \<^verbatim>\<open>release\<close>: a blocked
  caller is woken; without one, nothing happens and the signal is lost.
\<close>

definition notify_history :: "('n, 'dt) IbApi \<Rightarrow> ('n, 'dt) IbApi" where
  "notify_history s = s\<lparr>history_waiting := False\<rparr>"

text \<open>The outcome of a method that may raise: the value and the state, or the exception
  and the state in which it was raised.\<close>

datatype ('a, 's) result =
    is_Return: Return (returned: 'a) (state_of: 's)
  | Raise (raised: pyerr) (state_of: 's)

section \<open>Connection lifecycle\<close>

text \<open>
  \<^verbatim>\<open>IbApi.subscribe\<close> puts the request into the queue of the subscription worker.
\<close>

definition subscribe ::
    "SubscribeRequest \<Rightarrow> ('n, 'dt) IbApi \<Rightarrow> ('n, 'dt) IbApi" where
  "subscribe req s = s\<lparr>subscribeRequest_queue := subscribeRequest_queue s @ [req]\<rparr>"

text \<open>
  The block shared by \<^verbatim>\<open>nextValidId\<close> and the branch for code 1101 of \<^verbatim>\<open>error\<close>:
  \<^verbatim>\<open>reqs = list(self.subscribed.values()); self.subscribed.clear();
  for req in reqs: self.subscribe(req)\<close>.
\<close>

definition resubscribe_all :: "('n, 'dt) IbApi \<Rightarrow> ('n, 'dt) IbApi" where
  "resubscribe_all s = fold subscribe (map snd (subscribed s)) (s\<lparr>subscribed := []\<rparr>)"

text \<open>
  \<^verbatim>\<open>connectAck\<close>. \<^verbatim>\<open>load_contract_data\<close> reads the stored contract table, which is
  the argument \<open>stored\<close> here, and reports every contract in it.
\<close>

definition load_contract_data ::
    "(string \<times> ContractData) list \<Rightarrow> ('n, 'dt) IbApi \<Rightarrow> ('n, 'dt) IbApi" where
  "load_contract_data stored s =
     write_log LogContractsLoaded
       (fold (\<lambda>c. emit (OnContract c)) (map snd stored) (s\<lparr>contracts := map_of stored\<rparr>))"

definition connectAck ::
    "(string \<times> ContractData) list \<Rightarrow> ('n, 'dt) IbApi \<Rightarrow> ('n, 'dt) IbApi" where
  "connectAck stored s =
     (load_contract_data stored (write_log LogConnected (s\<lparr>status := True\<rparr>)))
       \<lparr>data_ready := False, order_ready := False\<rparr>"

definition connectionClosed :: "('n, 'dt) IbApi \<Rightarrow> ('n, 'dt) IbApi" where
  "connectionClosed s = write_log LogDisconnected (s\<lparr>status := False\<rparr>)"

text \<open>
  \<^verbatim>\<open>nextValidId\<close>. The last statement starts a new thread that runs
  \<^verbatim>\<open>subscribeRunner\<close>.
\<close>

definition nextValidId :: "int \<Rightarrow> ('n, 'dt) IbApi \<Rightarrow> ('n, 'dt) IbApi" where
  "nextValidId orderId s =
     (let s1 = client_call ReqCurrentTime s;
          s2 = (if orderid s1 = 0 then s1\<lparr>orderid := orderId\<rparr> else s1);
          s3 = (if \<not> order_ready s2 then s2\<lparr>order_ready := True\<rparr> else s2);
          s4 = (if \<not> data_ready s3 then s3\<lparr>data_ready := True\<rparr> else s3);
          s5 = resubscribe_all s4
      in s5\<lparr>subscribe_threads := Suc (subscribe_threads s5)\<rparr>)"

text \<open>\<^verbatim>\<open>error\<close>.\<close>

definition error_cb :: "int \<Rightarrow> int \<Rightarrow> string \<Rightarrow> ('n, 'dt) IbApi \<Rightarrow> ('n, 'dt) IbApi" where
  "error_cb reqId errorCode errorString s =
     (let s1 = (if reqId = history_reqid s \<and> \<not> (2000 \<le> errorCode \<and> errorCode < 3000)
                then notify_history s else s);
          s2 = write_log (LogInfo errorCode errorString) s1;
          s3 = (if errorCode = 1100 then s2\<lparr>order_ready := False, data_ready := False\<rparr> else s2);
          s4 = (if errorCode = 1101
                then resubscribe_all (s3\<lparr>order_ready := True, data_ready := True\<rparr>) else s3)
      in if errorCode = 1102 then s4\<lparr>order_ready := True, data_ready := True\<rparr> else s4)"

text \<open>\<^verbatim>\<open>close\<close>.\<close>

definition close :: "('n, 'dt) IbApi \<Rightarrow> ('n, 'dt) IbApi" where
  "close s = (if \<not> status s then s else client_call Disconnect (s\<lparr>status := False\<rparr>))"

section \<open>The subscription worker\<close>

text \<open>
  One pass through the \<^verbatim>\<open>while self.status\<close> loop of \<^verbatim>\<open>subscribeRunner\<close>. The pass
  ends the loop (\<open>Stop\<close>) when the loop condition is false, goes on to the next pass
  (\<open>Next\<close>), or leaves the loop with an exception that the \<^verbatim>\<open>except Empty\<close> clause does
  not catch (\<open>Abort\<close>); the thread ends in the first and the last case.

  A pass has two parts. The first is the loop condition and the tests of \<^verbatim>\<open>status\<close>
  and \<^verbatim>\<open>data_ready\<close> at the head of the body. The second begins with
  \<^verbatim>\<open>queue.get(block=True, timeout=1)\<close>, in which the thread waits up to one second for
  a request while the other threads go on; the flags are not read again after it.
  \<open>subscribeRunner_take\<close> is the second part, applied to the state of the adapter
  at the moment at which \<^verbatim>\<open>get\<close> returns a request or gives up: on a queue that is
  still empty it raises \<^verbatim>\<open>Empty\<close>, which the loop catches. \<open>subscribeRunner_iter\<close> is
  a whole pass during which no other thread changes the adapter.
\<close>

datatype 's loop_step =
    is_Next: Next (step_state: 's)
  | is_Stop: Stop (step_state: 's)
  | is_Abort: Abort (aborted: pyerr) (step_state: 's)

definition subscribeRunner_take ::
    "('n, 'dt) pylib \<Rightarrow> 'dt \<Rightarrow> ('n, 'dt) IbApi \<Rightarrow> ('n, 'dt) IbApi loop_step" where
  "subscribeRunner_take L now s =
        (case subscribeRequest_queue s of
           [] \<Rightarrow> Next s
         | req # rest \<Rightarrow>
             (let s1 = s\<lparr>subscribeRequest_queue := rest\<rparr> in
              if EXCHANGE_VT2IB (sr_exchange req) = None
              then Next (write_log
                     (LogSubscribeUnsupportedExchange (sr_symbol req) (sr_exchange req)) s1)
              else if sr_vt_symbol req \<in> set (map fst (subscribed s1)) then Next s1
              else
                (let s2 = s1\<lparr>subscribed := subscribed s1 @ [(sr_vt_symbol req, req)]\<rparr> in
                 case generate_ib_contract L (sr_symbol req) (sr_exchange req) of
                   Inl e \<Rightarrow> Abort e s2
                 | Inr None \<Rightarrow> Next (write_log LogSubscribeParseFailed s2)
                 | Inr (Some ib_contract) \<Rightarrow>
                     (let s3 = s2\<lparr>reqid := reqid s2 + 1\<rparr>;
                          s4 = client_call (ReqContractDetails (reqid s3) ib_contract) s3;
                          s5 = s4\<lparr>reqid := reqid s4 + 1\<rparr>;
                          s6 = write_log (LogSubscribeBefore (reqid s5) (sr_symbol req)) s5;
                          s7 = client_call (ReqMktData (reqid s6) ib_contract) s6;
                          tick = new_TickData L (sr_symbol req) (sr_exchange req) now
                                   (gateway_name s7);
                          s8 = s7\<lparr>ticks := (ticks s7)(reqid s7 \<mapsto> tick)\<rparr>;
                          s9 = write_log (LogSubscribeAfter (reqid s8) (sr_symbol req)) s8
                      in Next (s9\<lparr>tick_exchange :=
                                    (tick_exchange s9)(reqid s9 \<mapsto> sr_exchange req)\<rparr>)))))"

definition subscribeRunner_iter ::
    "('n, 'dt) pylib \<Rightarrow> 'dt \<Rightarrow> ('n, 'dt) IbApi \<Rightarrow> ('n, 'dt) IbApi loop_step" where
  "subscribeRunner_iter L now s =
     (if \<not> status s then Stop s
      else if \<not> data_ready s then Next s
      else subscribeRunner_take L now s)"

text \<open>
  A thread that runs the loop for as many such passes as there are clock readings in
  the list, unless the loop ends before.
\<close>

fun subscribeRunner ::
    "('n, 'dt) pylib \<Rightarrow> 'dt list \<Rightarrow> ('n, 'dt) IbApi \<Rightarrow> ('n, 'dt) IbApi loop_step" where
  "subscribeRunner L [] s = Next s"
| "subscribeRunner L (now # nows) s =
     (case subscribeRunner_iter L now s of
        Next s' \<Rightarrow> subscribeRunner L nows s'
      | Stop s' \<Rightarrow> Stop s'
      | Abort e s' \<Rightarrow> Abort e s')"

text \<open>
  The same passes seen from the adapter: a pass needs a live worker thread, and a thread
  whose loop has ended is no longer counted.
\<close>

definition worker_pass ::
    "('n, 'dt) pylib \<Rightarrow> 'dt \<Rightarrow> ('n, 'dt) IbApi \<Rightarrow> ('n, 'dt) IbApi" where
  "worker_pass L now s =
     (if subscribe_threads s = 0 then s
      else
        (case subscribeRunner_iter L now s of
           Next s' \<Rightarrow> s'
         | Stop s' \<Rightarrow> s'\<lparr>subscribe_threads := subscribe_threads s' - 1\<rparr>
         | Abort e s' \<Rightarrow> s'\<lparr>subscribe_threads := subscribe_threads s' - 1\<rparr>))"

section \<open>The tick aggregator\<close>

definition tickPrice ::
    "('n, 'dt) pylib \<Rightarrow> 'dt \<Rightarrow> int \<Rightarrow> int \<Rightarrow> 'n \<Rightarrow> ('n, 'dt) IbApi
       \<Rightarrow> (unit, ('n, 'dt) IbApi) result" where
  "tickPrice L now reqId tickType price s =
     (case ticks s reqId of
        None \<Rightarrow> Return () s
      | Some tick0 \<Rightarrow>
          (case TICKFIELD_IB2VT tickType of
             None \<Rightarrow> Return () s
           | Some name \<Rightarrow>
               (let tick1 = setattr_tick name price tick0;
                    tick2 = (case contracts s (vt_symbol_of (td_symbol tick1) (td_exchange tick1)) of
                               None \<Rightarrow> tick1
                             | Some contract \<Rightarrow> tick1\<lparr>td_name := cd_name contract\<rparr>);
                    s1 = s\<lparr>ticks := (ticks s)(reqId \<mapsto> tick2)\<rparr>
                in
                case tick_exchange s1 reqId of
                  None \<Rightarrow> Raise KeyError s1
                | Some exchange \<Rightarrow>
                    (if exchange = IDEALPRO \<or> str_contains ''CMDTY'' (td_symbol tick2)
                     then
                       (if is_falsy L (td_bid_price_1 tick2) \<or> is_falsy L (td_ask_price_1 tick2)
                        then Return () s1
                        else Return ()
                               (s1\<lparr>ticks := (ticks s1)(reqId \<mapsto>
                                  tick2\<lparr>td_last_price :=
                                           round_mid5 L (td_bid_price_1 tick2) (td_ask_price_1 tick2),
                                         td_datetime := now\<rparr>)\<rparr>))
                     else Return ()
                            (s1\<lparr>ticks := (ticks s1)(reqId \<mapsto> tick2\<lparr>td_datetime := now\<rparr>)\<rparr>)))))"

definition tickSize ::
    "'dt \<Rightarrow> int \<Rightarrow> int \<Rightarrow> 'n \<Rightarrow> ('n, 'dt) IbApi \<Rightarrow> ('n, 'dt) IbApi" where
  "tickSize now reqId tickType sz s =
     (case ticks s reqId of
        None \<Rightarrow> s
      | Some tick0 \<Rightarrow>
          (case TICKFIELD_IB2VT tickType of
             None \<Rightarrow> s
           | Some name \<Rightarrow>
               (let tick1 = (setattr_tick name sz tick0)\<lparr>td_datetime := now\<rparr>
                in emit (OnTick tick1) (s\<lparr>ticks := (ticks s)(reqId \<mapsto> tick1)\<rparr>))))"

section \<open>The order tracker\<close>

definition orderStatus ::
    "('n, 'dt) pylib \<Rightarrow> int \<Rightarrow> string \<Rightarrow> 'n \<Rightarrow> ('n, 'dt) IbApi \<Rightarrow> ('n, 'dt) IbApi" where
  "orderStatus L orderId status_str filled s =
     (let oid = str_of_int orderId in
      case orders s oid of
        None \<Rightarrow> s
      | Some order0 \<Rightarrow>
          (let order1 = order0\<lparr>od_traded := float_of_decimal L filled\<rparr>;
               order2 = (case STATUS_IB2VT status_str of
                           None \<Rightarrow> order1
                         | Some order_status \<Rightarrow> order1\<lparr>od_status := order_status\<rparr>);
               s1 = s\<lparr>orders := (orders s)(oid \<mapsto> order2)\<rparr>
           in write_log (LogOrderStatus order2) (emit (OnOrder order2) s1)))"

definition openOrder ::
    "('n, 'dt) pylib \<Rightarrow> int \<Rightarrow> 'n Contract \<Rightarrow> 'n Order \<Rightarrow> ('n, 'dt) IbApi
       \<Rightarrow> (unit, ('n, 'dt) IbApi) result" where
  "openOrder L orderId ib_contract ib_order s =
     (let oid = str_of_int orderId;
          symbol = generate_symbol L ib_contract;
          exchange = (case EXCHANGE_IB2VT (c_exchange ib_contract) of
                        None \<Rightarrow> SMART | Some e \<Rightarrow> e)
      in
      case dict_item ORDERTYPE_IB2VT (io_orderType ib_order) of
        Inl e \<Rightarrow> Raise e s
      | Inr type \<Rightarrow>
          (case dict_item DIRECTION_IB2VT (io_action ib_order) of
             Inl e \<Rightarrow> Raise e s
           | Inr direction \<Rightarrow>
               (let order0 = new_OrderData L symbol exchange type oid direction
                               (io_totalQuantity ib_order) (gateway_name s);
                    order1 = (if od_type order0 = LIMIT
                              then order0\<lparr>od_price := io_lmtPrice ib_order\<rparr>
                              else if od_type order0 = STOP
                              then order0\<lparr>od_price := io_auxPrice ib_order\<rparr>
                              else order0)
                in Return () (s\<lparr>orders := (orders s)(oid \<mapsto> order1)\<rparr>))))"

definition send_order ::
    "('n, 'dt) pylib \<Rightarrow> 'dt \<Rightarrow> 'n OrderRequest \<Rightarrow> ('n, 'dt) IbApi
       \<Rightarrow> (string, ('n, 'dt) IbApi) result" where
  "send_order L now req s =
     (if \<not> status s then Return [] s
      else if \<not> order_ready s
      then Return []
             (write_log (LogOrderNotReady (vt_symbol_of (or_symbol req) (or_exchange req))
                           (or_direction req) (or_price req) (or_volume req)) s)
      else if EXCHANGE_VT2IB (or_exchange req) = None
      then Return [] (write_log (LogUnsupportedExchange (or_exchange req)) s)
      else if ORDERTYPE_VT2IB (or_type req) = None
      then Return [] (write_log (LogUnsupportedOrderType (or_type req)) s)
      else
        (let s1 = s\<lparr>orderid := orderid s + 1\<rparr> in
         case generate_ib_contract L (or_symbol req) (or_exchange req) of
           Inl e \<Rightarrow> Raise e s1
         | Inr None \<Rightarrow> Return [] s1
         | Inr (Some ib_contract) \<Rightarrow>
             (case dict_item DIRECTION_VT2IB (or_direction req) of
                Inl e \<Rightarrow> Raise e s1
              | Inr action \<Rightarrow>
                  (case dict_item ORDERTYPE_VT2IB (or_type req) of
                     Inl e \<Rightarrow> Raise e s1
                   | Inr order_type \<Rightarrow>
                       (let ib_order0 = (new_Order L)
                              \<lparr>io_orderId := orderid s1, io_clientId := clientid s1,
                               io_action := action, io_orderType := order_type,
                               io_totalQuantity := or_volume req, io_account := account s1,
                               io_outsideRth := True\<rparr>;
                            ib_order = (if or_type req = LIMIT
                                        then ib_order0\<lparr>io_lmtPrice := or_price req\<rparr>
                                        else if or_type req = STOP
                                        then ib_order0\<lparr>io_auxPrice := or_price req\<rparr>
                                        else ib_order0);
                            s2 = client_call (PlaceOrder (orderid s1) ib_contract ib_order) s1;
                            s3 = client_call (ReqIds 1) s2;
                            order = (create_order_data L req (str_of_int (orderid s3))
                                       (gateway_name s3))\<lparr>od_datetime := Some now\<rparr>
                        in Return (od_vt_orderid order) (emit (OnOrder order) s3))))))"

section \<open>The historical query bridge\<close>

text \<open>\<^verbatim>\<open>generate_localtime\<close>.\<close>

definition generate_localtime :: "('n, 'dt) pylib \<Rightarrow> string \<Rightarrow> pyerr + 'dt option" where
  "generate_localtime L str_datetime =
     (let strTimeList = split_char (CHR '' '') str_datetime in
      if length strTimeList > 2 then
        (if \<not> timezone_known L (strTimeList ! 2) then Inl UnknownTimeZoneError
         else
           (case strptime_datetime L (strTimeList ! 0 @ '' '' @ strTimeList ! 1) of
              None \<Rightarrow> Inl ValueError
            | Some dt \<Rightarrow> Inr (Some (astimezone_shanghai L (localize L (strTimeList ! 2) dt)))))
      else Inr None)"

text \<open>
  The first statements of \<^verbatim>\<open>historicalData\<close>, which compute the time of the bar.
  Where \<^verbatim>\<open>generate_localtime\<close> returns \<^verbatim>\<open>None\<close>, the call \<^verbatim>\<open>dt.replace\<close> raises
  AttributeError.
\<close>

definition bar_datetime :: "('n, 'dt) pylib \<Rightarrow> string \<Rightarrow> pyerr + 'dt" where
  "bar_datetime L date =
     bindE (if length date > 8
            then bindE (generate_localtime L date)
                   (\<lambda>r. case r of None \<Rightarrow> Inl AttributeError | Some dt \<Rightarrow> Inr dt)
            else (case strptime_date L date of None \<Rightarrow> Inl ValueError | Some dt \<Rightarrow> Inr dt))
       (\<lambda>dt. Inr (replace_tzinfo_local L dt))"

definition make_bar ::
    "('n, 'dt) pylib \<Rightarrow> 'dt HistoryRequest \<Rightarrow> string \<Rightarrow> 'dt \<Rightarrow> 'n IbBarData
       \<Rightarrow> ('n, 'dt) BarData" where
  "make_bar L req gw dt ib_bar =
     (let bar = \<lparr>bd_symbol = hr_symbol req, bd_exchange = hr_exchange req, bd_datetime = dt,
                 bd_interval = hr_interval req, bd_volume = ib_volume ib_bar,
                 bd_open_price = ib_open ib_bar, bd_high_price = ib_high ib_bar,
                 bd_low_price = ib_low ib_bar, bd_close_price = ib_close ib_bar,
                 bd_gateway_name = gw\<rparr>
      in if is_negative L (bd_volume bar) then bar\<lparr>bd_volume := num_zero L\<rparr> else bar)"

text \<open>
  \<^verbatim>\<open>historicalData\<close>. Reading \<^verbatim>\<open>self.history_req.symbol\<close> while no query is in
  flight raises AttributeError.
\<close>

definition historicalData ::
    "('n, 'dt) pylib \<Rightarrow> int \<Rightarrow> 'n IbBarData \<Rightarrow> ('n, 'dt) IbApi
       \<Rightarrow> (unit, ('n, 'dt) IbApi) result" where
  "historicalData L reqId ib_bar s =
     (case bar_datetime L (ib_date ib_bar) of
        Inl e \<Rightarrow> Raise e s
      | Inr dt \<Rightarrow>
          (case history_req s of
             None \<Rightarrow> Raise AttributeError s
           | Some req \<Rightarrow>
               Return () (s\<lparr>history_buf :=
                              history_buf s @ [make_bar L req (gateway_name s) dt ib_bar]\<rparr>)))"

definition historicalDataEnd ::
    "int \<Rightarrow> string \<Rightarrow> string \<Rightarrow> ('n, 'dt) IbApi \<Rightarrow> ('n, 'dt) IbApi" where
  "historicalDataEnd reqId start_str end_str s = notify_history s"

text \<open>
  \<^verbatim>\<open>query_history\<close> up to and including the call \<^verbatim>\<open>self.client.reqHistoricalData\<close>:
  on \<open>Return\<close> the request has been sent and the caller has not yet reached
  \<^verbatim>\<open>history_condition.acquire()\<close>. A \<^verbatim>\<open>ContractData\<close> object is never false, so the
  branch under \<^verbatim>\<open>if not contract\<close> is not taken.
\<close>

definition query_history_request ::
    "('n, 'dt) pylib \<Rightarrow> 'dt \<Rightarrow> 'dt HistoryRequest \<Rightarrow> ('n, 'dt) IbApi
       \<Rightarrow> (unit, ('n, 'dt) IbApi) result" where
  "query_history_request L now req s =
     (case dict_item (contracts s) (vt_symbol_of (hr_symbol req) (hr_exchange req)) of
        Inl e \<Rightarrow> Raise e s
      | Inr contract \<Rightarrow>
          (let s1 = s\<lparr>history_req := Some req\<rparr>;
               s2 = s1\<lparr>reqid := reqid s1 + 1\<rparr>
           in
           case generate_ib_contract L (hr_symbol req) (hr_exchange req) of
             Inl e \<Rightarrow> Raise e s2
           | Inr ib_contract \<Rightarrow>
               (let end_dt = (case hr_end req of Some e \<Rightarrow> e | None \<Rightarrow> now);
                    end_str = (case hr_end req of
                                 Some e \<Rightarrow> strftime_datetime L e | None \<Rightarrow> [])
                in
                case delta_days L end_dt (hr_start req) of
                  None \<Rightarrow> Raise TypeError s2
                | Some d \<Rightarrow>
                    (let days = min d 180;
                         duration = str_of_int days @ '' D''
                     in
                     case bindE (case hr_interval req of
                                   None \<Rightarrow> Inl KeyError | Some i \<Rightarrow> Inr i)
                            (dict_item INTERVAL_VT2IB) of
                       Inl e \<Rightarrow> Raise e s2
                     | Inr bar_size \<Rightarrow>
                         (let bar_type = (if cd_product contract \<in> set [SPOT, FOREX]
                                          then ''MIDPOINT'' else ''TRADES'');
                              s3 = s2\<lparr>history_reqid := reqid s2\<rparr>;
                              s4 = client_call
                                     (ReqHistoricalData (reqid s3) ib_contract end_str
                                        duration bar_size bar_type) s3
                          in Return () s4)))))"

text \<open>
  \<^verbatim>\<open>history_condition.acquire()\<close> and \<^verbatim>\<open>history_condition.wait()\<close>: from here on the
  caller is blocked until the condition is signalled. A signal given before this moment
  is not kept.
\<close>

definition history_wait :: "('n, 'dt) IbApi \<Rightarrow> ('n, 'dt) IbApi" where
  "history_wait s = s\<lparr>history_waiting := True\<rparr>"

text \<open>The rest of \<^verbatim>\<open>query_history\<close>, which runs when the caller has been woken.\<close>

definition query_history_resume ::
    "('n, 'dt) IbApi \<Rightarrow> ('n, 'dt) BarData list \<times> ('n, 'dt) IbApi" where
  "query_history_resume s = (history_buf s, s\<lparr>history_buf := [], history_req := None\<rparr>)"

text \<open>
  The callbacks that the receive loop of the broker's client delivers one after the
  other, each with the clock reading or the stored data that the handler obtains.
\<close>

datatype ('n, 'dt) callback =
    CbConnectAck "(string \<times> ContractData) list"
  | CbConnectionClosed
  | CbNextValidId int
  | CbError int int string
  | CbTickPrice 'dt int int 'n
  | is_CbTickSize: CbTickSize 'dt int int 'n
  | CbOrderStatus int string 'n
  | CbOpenOrder int "'n Contract" "'n Order"
  | CbHistoricalData int "'n IbBarData"
  | CbHistoricalDataEnd int string string

fun deliver ::
    "('n, 'dt) pylib \<Rightarrow> ('n, 'dt) callback \<Rightarrow> ('n, 'dt) IbApi
       \<Rightarrow> (unit, ('n, 'dt) IbApi) result" where
  "deliver L (CbConnectAck stored) s = Return () (connectAck stored s)"
| "deliver L CbConnectionClosed s = Return () (connectionClosed s)"
| "deliver L (CbNextValidId orderId) s = Return () (nextValidId orderId s)"
| "deliver L (CbError reqId code msg) s = Return () (error_cb reqId code msg s)"
| "deliver L (CbTickPrice now reqId tickType price) s = tickPrice L now reqId tickType price s"
| "deliver L (CbTickSize now reqId tickType sz) s = Return () (tickSize now reqId tickType sz s)"
| "deliver L (CbOrderStatus orderId st filled) s = Return () (orderStatus L orderId st filled s)"
| "deliver L (CbOpenOrder orderId c ord) s = openOrder L orderId c ord s"
| "deliver L (CbHistoricalData reqId ib_bar) s = historicalData L reqId ib_bar s"
| "deliver L (CbHistoricalDataEnd reqId start_str end_str) s =
     Return () (historicalDataEnd reqId start_str end_str s)"

text \<open>
  The receive thread handling callbacks one after the other while no caller waits. An
  exception in a handler leaves the handler; what the receive loop of the library does
  with it is outside this model, so the run ends there.
\<close>

fun deliver_all ::
    "('n, 'dt) pylib \<Rightarrow> ('n, 'dt) callback list \<Rightarrow> ('n, 'dt) IbApi
       \<Rightarrow> (unit, ('n, 'dt) IbApi) result" where
  "deliver_all L [] s = Return () s"
| "deliver_all L (cb # cbs) s =
     (case deliver L cb s of
        Raise e s' \<Rightarrow> Raise e s'
      | Return u s' \<Rightarrow> deliver_all L cbs s')"

text \<open>
  The blocked caller while callbacks arrive: it is woken by the first callback that
  signals the condition, and stays blocked when the callbacks end without a signal.
\<close>

datatype ('n, 'dt) wait_result =
    Woken "('n, 'dt) IbApi" "('n, 'dt) callback list"
  | Blocked "('n, 'dt) IbApi"
  | HandlerRaised pyerr "('n, 'dt) IbApi"

fun await_history ::
    "('n, 'dt) pylib \<Rightarrow> ('n, 'dt) callback list \<Rightarrow> ('n, 'dt) IbApi \<Rightarrow> ('n, 'dt) wait_result" where
  "await_history L [] s = Blocked s"
| "await_history L (cb # cbs) s =
     (case deliver L cb s of
        Raise e s' \<Rightarrow> HandlerRaised e s'
      | Return u s' \<Rightarrow> (if history_waiting s' then await_history L cbs s' else Woken s' cbs))"

text \<open>
  The blocking call \<^verbatim>\<open>query_history\<close> in a run where the receive thread handles the
  callbacks \<open>early\<close> after the request has been sent and before the caller begins to
  wait, and the callbacks \<open>late\<close> after that: the bars and the state when it returns,
  together with the callbacks that have not been delivered by then; or the exception
  that it raises; or no return. \<open>query_history\<close> is the run in which the caller waits
  before the first callback is handled.
\<close>

datatype ('n, 'dt) query_result =
    is_QReturn: QReturn (q_history: "('n, 'dt) BarData list") (q_state: "('n, 'dt) IbApi")
      (q_pending: "('n, 'dt) callback list")
  | is_QRaise: QRaise (q_raised: pyerr) (q_state: "('n, 'dt) IbApi")
  | QBlocked (q_state: "('n, 'dt) IbApi")
  | QHandlerRaised (q_raised: pyerr) (q_state: "('n, 'dt) IbApi")

definition query_history_sched ::
    "('n, 'dt) pylib \<Rightarrow> 'dt \<Rightarrow> 'dt HistoryRequest \<Rightarrow> ('n, 'dt) callback list
       \<Rightarrow> ('n, 'dt) callback list \<Rightarrow> ('n, 'dt) IbApi \<Rightarrow> ('n, 'dt) query_result" where
  "query_history_sched L now req early late s =
     (case query_history_request L now req s of
        Raise e s' \<Rightarrow> QRaise e s'
      | Return u s1 \<Rightarrow>
          (case deliver_all L early s1 of
             Raise e s2 \<Rightarrow> QHandlerRaised e s2
           | Return u s2 \<Rightarrow>
               (case await_history L late (history_wait s2) of
                  Woken s3 rest \<Rightarrow>
                    (case query_history_resume s3 of (history, s4) \<Rightarrow> QReturn history s4 rest)
                | Blocked s3 \<Rightarrow> QBlocked s3
                | HandlerRaised e s3 \<Rightarrow> QHandlerRaised e s3)))"

definition query_history ::
    "('n, 'dt) pylib \<Rightarrow> 'dt \<Rightarrow> 'dt HistoryRequest \<Rightarrow> ('n, 'dt) callback list
       \<Rightarrow> ('n, 'dt) IbApi \<Rightarrow> ('n, 'dt) query_result" where
  "query_history L now req cbs s = query_history_sched L now req [] cbs s"

section \<open>Concrete inputs\<close>

text \<open>
  An instance of the library record for running the model on concrete inputs: numbers
  are integers, written with a trailing \<^verbatim>\<open>.0\<close> as Python writes a whole float, and
  times are their own text.
\<close>

definition sample_lib :: "(int, string) pylib" where
  "sample_lib =
     \<lparr>float_of_str = (\<lambda>s. case py_int s of Inl e \<Rightarrow> None | Inr i \<Rightarrow> Some i),
      str_of_float = (\<lambda>i. str_of_int i @ ''.0''),
      float_of_decimal = (\<lambda>i. i),
      is_falsy = (\<lambda>i. i = 0),
      is_negative = (\<lambda>i. i < 0),
      num_zero = 0,
      default_strike = 0,
      unset_double = 0,
      round_mid5 = (\<lambda>a b. (a + b) div 2),
      strptime_date = (\<lambda>s. if length s = 8 then Some s else None),
      strptime_datetime = (\<lambda>s. if length s = 17 then Some s else None),
      timezone_known = (\<lambda>z. z \<noteq> []),
      localize = (\<lambda>z dt. dt @ '' '' @ z),
      astimezone_shanghai = (\<lambda>dt. dt),
      replace_tzinfo_local = (\<lambda>dt. dt),
      strftime_datetime = (\<lambda>dt. dt),
      delta_days = (\<lambda>a b. Some 30)\<rparr>"

text \<open>
  The start of a session: a fresh adapter that has received \<^verbatim>\<open>connectAck\<close> with an
  empty contract table, and the same adapter after the handshake has completed with
  \<^verbatim>\<open>nextValidId(1)\<close>.
\<close>

definition session_start :: "string \<Rightarrow> ('n, 'dt) IbApi" where
  "session_start gw = connectAck [] (init_IbApi gw)"

definition session_ready :: "string \<Rightarrow> ('n, 'dt) IbApi" where
  "session_ready gw = nextValidId 1 (session_start gw)"

text \<open>
  The future with a multiplier that the head of the module lists among its symbol rules
  (\<^verbatim>\<open>SI-202006-1000-USD-FUT  NYMEX\<close>), as a contract with a given multiplier.
\<close>

definition silver_future :: "('n, 'dt) pylib \<Rightarrow> pyval \<Rightarrow> 'n Contract" where
  "silver_future L m =
     (new_Contract L)\<lparr>c_symbol := ''SI'', c_secType := ''FUT'',
        c_lastTradeDateOrContractMonth := ''202006'', c_multiplier := m,
        c_exchange := ''NYMEX'', c_currency := ''USD''\<rparr>"

text \<open>
  Two subscription requests: a future whose multiplier field is not a number, and a
  stock. \<open>queued_session\<close> is a session in which both were submitted before the
  handshake completed.
\<close>

definition malformed_request :: SubscribeRequest where
  "malformed_request = \<lparr>sr_symbol = ''SI-202006-10x-USD-FUT'', sr_exchange = NYMEX\<rparr>"

definition stock_request :: SubscribeRequest where
  "stock_request = \<lparr>sr_symbol = ''SPY-USD-STK'', sr_exchange = SMART\<rparr>"

definition queued_session :: "('n, 'dt) IbApi" where
  "queued_session =
     nextValidId 1 (subscribe stock_request (subscribe malformed_request (session_start ''IB'')))"

text \<open>Limit orders to buy, for a symbol and an exchange.\<close>

definition limit_buy :: "string \<Rightarrow> Exchange \<Rightarrow> 'n \<Rightarrow> 'n \<Rightarrow> 'n OrderRequest" where
  "limit_buy symbol exchange vol price =
     \<lparr>or_symbol = symbol, or_exchange = exchange, or_direction = LONG, or_type = LIMIT,
      or_volume = vol, or_price = price, or_reference = []\<rparr>"

text \<open>
  An order with id 7 that another session placed: the broker reports it with
  \<^verbatim>\<open>openOrder\<close> as a limit order to buy 10 of the silver future at 25.
  \<open>tracked_session\<close> is a ready session after that callback.
\<close>

definition sample_order :: "int Order" where
  "sample_order =
     (new_Order sample_lib)\<lparr>io_orderId := 7, io_action := ''BUY'', io_orderType := ''LMT'',
        io_totalQuantity := 10, io_lmtPrice := 25\<rparr>"

definition tracked_session :: "(int, string) IbApi" where
  "tracked_session =
     state_of (openOrder sample_lib 7 (silver_future sample_lib (PyInt 1000)) sample_order
       (session_ready ''IB''))"

text \<open>
  A session in which the stock request was submitted before the handshake and the
  worker has made one pass: the stock streams under the request id 2.
\<close>

definition streaming_session :: "(int, string) IbApi" where
  "streaming_session =
     step_state (subscribeRunner_iter sample_lib ''t0''
       (nextValidId 1 (subscribe stock_request (session_start ''IB''))))"

text \<open>
  A second request, for a currency pair, and a session in which the worker has
  subscribed the stock and the pair, so that both are tracked.
\<close>

definition euro_request :: SubscribeRequest where
  "euro_request = \<lparr>sr_symbol = ''EUR-USD-CASH'', sr_exchange = IDEALPRO\<rparr>"

definition two_streams_session :: "(int, string) IbApi" where
  "two_streams_session =
     step_state (subscribeRunner sample_lib [''t0'', ''t1'']
       (nextValidId 1 (subscribe euro_request (subscribe stock_request (session_start ''IB'')))))"

text \<open>
  The contracts that the two requests decode to, and a reconnection of that session
  during which the worker runs: the error 1101 arrives, the worker makes two passes,
  the handshake completes with \<^verbatim>\<open>nextValidId(9)\<close>, and the worker makes two more
  passes.
\<close>

definition stock_ib :: "int Contract" where
  "stock_ib =
     (new_Contract sample_lib)\<lparr>c_exchange := ''SMART'', c_secType := ''STK'',
        c_currency := ''USD'', c_symbol := ''SPY''\<rparr>"

definition euro_ib :: "int Contract" where
  "euro_ib =
     (new_Contract sample_lib)\<lparr>c_exchange := ''IDEALPRO'', c_secType := ''CASH'',
        c_currency := ''USD'', c_symbol := ''EUR''\<rparr>"

definition restored_session :: "(int, string) IbApi" where
  "restored_session = error_cb (- 1) 1101 ''restored'' two_streams_session"

definition resubscribed_session :: "(int, string) IbApi" where
  "resubscribed_session =
     worker_pass sample_lib ''t3'' (worker_pass sample_lib ''t2'' restored_session)"

definition reconnected_session :: "(int, string) IbApi" where
  "reconnected_session =
     worker_pass sample_lib ''t5''
       (worker_pass sample_lib ''t4'' (nextValidId 9 resubscribed_session))"

text \<open>
  A session whose stored contract table knows the stock, a request for its daily bars,
  and the callbacks that answer it: two bars, the second with the broker's placeholder
  for no volume, and the end of the data.
\<close>

definition spy_contract :: ContractData where
  "spy_contract =
     \<lparr>cd_symbol = ''SPY-USD-STK'', cd_exchange = SMART, cd_name = ''SPY'', cd_product = EQUITY\<rparr>"

definition history_session :: "(int, string) IbApi" where
  "history_session =
     nextValidId 1 (connectAck [(''SPY-USD-STK.SMART'', spy_contract)] (init_IbApi ''IB''))"

definition daily_request :: "string HistoryRequest" where
  "daily_request =
     \<lparr>hr_symbol = ''SPY-USD-STK'', hr_exchange = SMART, hr_start = ''20230101'',
      hr_end = None, hr_interval = Some DAILY\<rparr>"

definition day_bar :: "string \<Rightarrow> int \<Rightarrow> int IbBarData" where
  "day_bar date vol =
     \<lparr>ib_date = date, ib_open = 10, ib_high = 12, ib_low = 9, ib_close = 11, ib_volume = vol\<rparr>"

definition two_bars_delivered :: "(int, string) callback list" where
  "two_bars_delivered =
     [CbHistoricalData 1 (day_bar ''20230628'' 100),
      CbHistoricalData 1 (day_bar ''20230629'' (- 1)),
      CbHistoricalDataEnd 1 [] []]"

section \<open>Basic facts\<close>

lemma bindE_simps [simp]:
  "bindE (Inl e) f = Inl e"
  "bindE (Inr x) f = f x"
  by (simp_all add: bindE_def)

lemmas codec_defs = generate_ib_contract_def generate_ib_contract_try_def generate_symbol_def
  list_item_def dict_item_def py_int_def strip_def is_space_def nat_of_str_def digit_val_def
  new_Contract_def JOIN_SYMBOL_def

lemmas effect_defs = write_log_def emit_def client_call_def notify_history_def

lemma fold_subscribe:
  "fold subscribe reqs s = s\<lparr>subscribeRequest_queue := subscribeRequest_queue s @ reqs\<rparr>"
  by (induction reqs arbitrary: s) (simp_all add: subscribe_def)

lemma resubscribe_all_eq:
  "resubscribe_all s =
     s\<lparr>subscribed := [],
       subscribeRequest_queue := subscribeRequest_queue s @ map snd (subscribed s)\<rparr>"
  by (simp add: resubscribe_all_def fold_subscribe)

lemmas lifecycle_defs = session_start_def session_ready_def connectAck_def
  load_contract_data_def init_IbApi_def nextValidId_def resubscribe_all_eq subscribe_def
  connectionClosed_def error_cb_def close_def

lemma fold_emit_contracts:
  "fold (\<lambda>c. emit (OnContract c)) cs s
     = s\<lparr>gateway_events := gateway_events s @ map OnContract cs\<rparr>"
  by (induction cs arbitrary: s) (simp_all add: emit_def)

lemma no_tick_among_contracts: "filter is_OnTick (map OnContract cs) = []"
  by (induction cs) simp_all

lemma str_of_int_7: "str_of_int 7 = ''7''"
  by (simp add: str_of_int_def str_of_nat.simps [of 7] digit_char_def)

lemma str_of_int_8: "str_of_int 8 = ''8''"
  by (simp add: str_of_int_def str_of_nat.simps [of 8] digit_char_def)

lemma str_of_int_2: "str_of_int 2 = ''2''"
  by (simp add: str_of_int_def str_of_nat.simps [of 2] digit_char_def)

lemma malformed_multiplier_raises:
  "generate_ib_contract L ''SI-202006-10x-USD-FUT'' NYMEX = Inl ValueError"
  by (simp add: codec_defs)

lemma session_ready_flags:
  "status (session_ready gw :: ('n, 'dt) IbApi)"
  "order_ready (session_ready gw :: ('n, 'dt) IbApi)"
  "data_ready (session_ready gw :: ('n, 'dt) IbApi)"
  "orderid (session_ready gw :: ('n, 'dt) IbApi) = 1"
  "subscribe_threads (session_ready gw :: ('n, 'dt) IbApi) = 1"
  "subscribed (session_ready gw :: ('n, 'dt) IbApi) = []"
  "subscribeRequest_queue (session_ready gw :: ('n, 'dt) IbApi) = []"
  by (simp_all add: lifecycle_defs effect_defs)

lemma session_start_flags:
  "\<not> status (init_IbApi gw :: ('n, 'dt) IbApi)"
  "status (session_start gw :: ('n, 'dt) IbApi)"
  "\<not> order_ready (session_start gw :: ('n, 'dt) IbApi)"
  by (simp_all add: lifecycle_defs effect_defs)

lemma decode_stock:
  "generate_ib_contract L ''SPY-USD-STK'' SMART
     = Inr (Some ((new_Contract L)\<lparr>c_exchange := ''SMART'', c_secType := ''STK'',
          c_currency := ''USD'', c_symbol := ''SPY''\<rparr>))"
  by (simp add: codec_defs)

lemma decode_too_short: "generate_ib_contract L ''SPY'' SMART = Inr None"
  by (simp add: codec_defs)

lemma decode_euro:
  "generate_ib_contract L ''EUR-USD-CASH'' IDEALPRO
     = Inr (Some ((new_Contract L)\<lparr>c_exchange := ''IDEALPRO'', c_secType := ''CASH'',
          c_currency := ''USD'', c_symbol := ''EUR''\<rparr>))"
  by (simp add: codec_defs)

section \<open>Round trips of the symbol codec\<close>

lemma split_char_nonempty: "split_char c s \<noteq> []"
  by (induction s) (auto split: list.split)

lemma join_split_char: "join [c] (split_char c s) = s"
proof (induction s)
  case Nil
  show ?case by simp
next
  case (Cons x xs)
  obtain w ws where sp: "split_char c xs = w # ws"
    using split_char_nonempty [of c xs] by (cases "split_char c xs") auto
  show ?case
  proof (cases "x = c")
    case True
    with Cons sp show ?thesis by simp
  next
    case False
    with Cons sp show ?thesis by (cases ws) auto
  qed
qed

lemma split_char_no_sep: "c \<notin> set a \<Longrightarrow> split_char c a = [a]"
  by (induction a) auto

lemma split_char_append: "c \<notin> set a \<Longrightarrow> split_char c (a @ c # rest) = a # split_char c rest"
  by (induction a) auto

lemma list_item_three:
  "list_item [a, b, c] (- 1) = Inr c" "list_item [a, b, c] (- 2) = Inr b"
  "list_item [a, b, c] 0 = Inr a"
  by (simp_all add: list_item_def)

lemma list_item_four:
  "list_item [a, b, c, d] (- 1) = Inr d" "list_item [a, b, c, d] (- 2) = Inr c"
  "list_item [a, b, c, d] 0 = Inr a" "list_item [a, b, c, d] 1 = Inr b"
  by (simp_all add: list_item_def)

text \<open>
  Where the codec is an inverse pair: a symbol of three fields whose last field is none
  of \<^verbatim>\<open>FUT\<close>, \<^verbatim>\<open>OPT\<close>, \<^verbatim>\<open>FOP\<close>, and a future of four fields, decode to a
  contract that encodes to the same symbol.
\<close>

lemma encode_decode_plain:
  assumes "split_char (CHR ''-'') s = [root, currency, secType]"
    and "secType \<notin> set [''FUT'', ''OPT'', ''FOP'']"
    and "EXCHANGE_VT2IB exchange = Some ex"
  shows "generate_ib_contract L s exchange
           = Inr (Some ((new_Contract L)\<lparr>c_exchange := ex, c_secType := secType,
                    c_currency := currency, c_symbol := root\<rparr>))"
    and "generate_symbol L ((new_Contract L)\<lparr>c_exchange := ex, c_secType := secType,
                    c_currency := currency, c_symbol := root\<rparr>) = s"
proof -
  show "generate_ib_contract L s exchange
           = Inr (Some ((new_Contract L)\<lparr>c_exchange := ex, c_secType := secType,
                    c_currency := currency, c_symbol := root\<rparr>))"
    using assms
    by (auto simp add: generate_ib_contract_def generate_ib_contract_try_def dict_item_def
        list_item_three Let_def)
  have "join ''-'' [root, currency, secType] = s"
    using join_split_char [of "CHR ''-''" s] assms(1) by simp
  then show "generate_symbol L ((new_Contract L)\<lparr>c_exchange := ex, c_secType := secType,
                    c_currency := currency, c_symbol := root\<rparr>) = s"
    using assms(2) by (simp add: generate_symbol_def JOIN_SYMBOL_def new_Contract_def)
qed

lemma encode_decode_future:
  assumes "split_char (CHR ''-'') s = [root, expiry, currency, ''FUT'']"
    and "EXCHANGE_VT2IB exchange = Some ex"
  shows "generate_ib_contract L s exchange
           = Inr (Some ((new_Contract L)\<lparr>c_exchange := ex, c_secType := ''FUT'',
                    c_currency := currency, c_symbol := root,
                    c_lastTradeDateOrContractMonth := expiry\<rparr>))"
    and "generate_symbol L ((new_Contract L)\<lparr>c_exchange := ex, c_secType := ''FUT'',
                    c_currency := currency, c_symbol := root,
                    c_lastTradeDateOrContractMonth := expiry\<rparr>) = s"
proof -
  show "generate_ib_contract L s exchange
           = Inr (Some ((new_Contract L)\<lparr>c_exchange := ex, c_secType := ''FUT'',
                    c_currency := currency, c_symbol := root,
                    c_lastTradeDateOrContractMonth := expiry\<rparr>))"
    using assms
    by (simp add: generate_ib_contract_def generate_ib_contract_try_def dict_item_def
        list_item_four Let_def)
  have "join ''-'' [root, expiry, currency, ''FUT''] = s"
    using join_split_char [of "CHR ''-''" s] assms(1) by simp
  then show "generate_symbol L ((new_Contract L)\<lparr>c_exchange := ex, c_secType := ''FUT'',
                    c_currency := currency, c_symbol := root,
                    c_lastTradeDateOrContractMonth := expiry\<rparr>) = s"
    by (simp add: generate_symbol_def JOIN_SYMBOL_def new_Contract_def)
qed

text \<open>
  The head of the module gives the symbol rules by example. Two of the examples are a
  future with a multiplier and an option on a future with the strike \<^verbatim>\<open>2430\<close>.
\<close>

text \<open>
  C1 (the codec is an exact inverse pair). The code does not have this property.
  Decoding the documented symbol \<^verbatim>\<open>SI-202006-1000-USD-FUT\<close> on NYMEX gives the
  silver future with the multiplier 1000; encoding that contract gives
  \<^verbatim>\<open>SI-202006-USD-FUT\<close>, which is another string; and decoding the encoded string
  gives a contract whose multiplier is the empty default, which is another contract.
  So neither \<open>encode (decode s) = s\<close> nor \<open>decode (encode x) = x\<close> holds there.
\<close>

theorem C1_documented_future_not_restored:
  "generate_ib_contract L ''SI-202006-1000-USD-FUT'' NYMEX
     = Inr (Some (silver_future L (PyInt 1000)))
   \<and> generate_symbol L (silver_future L (PyInt 1000)) = ''SI-202006-USD-FUT''
   \<and> ''SI-202006-USD-FUT'' \<noteq> ''SI-202006-1000-USD-FUT''
   \<and> generate_ib_contract L (generate_symbol L (silver_future L (PyInt 1000))) NYMEX
     = Inr (Some (silver_future L (PyStr [])))
   \<and> silver_future L (PyStr []) \<noteq> silver_future L (PyInt 1000)"
  by (simp add: codec_defs silver_future_def)

text \<open>
  The documented option symbol meets the same fate through its strike: Python reads
  \<^verbatim>\<open>2430\<close> as the float 2430.0 and writes that float as \<^verbatim>\<open>2430.0\<close>. With these two
  facts about the runtime, the symbol comes back with another strike field.
\<close>

lemma documented_option_not_restored:
  assumes "float_of_str L ''2430'' = Some x" and "str_of_float L x = ''2430.0''"
  shows "\<exists>c. generate_ib_contract L ''ES-2020006-C-2430-50-USD-FOP'' GLOBEX = Inr (Some c)
     \<and> generate_symbol L c = ''ES-2020006-C-2430.0-50-USD-FOP''"
  using assms
  by (simp add: codec_defs str_of_int_def str_of_nat.simps [of 50] str_of_nat.simps [of 5]
      digit_char_def)

section \<open>The historical query\<close>

lemma history_session_fields:
  "contracts history_session ''SPY-USD-STK.SMART'' = Some spy_contract"
  "history_buf history_session = []"
  "history_reqid history_session = 0"
  "reqid history_session = 0"
  "gateway_name history_session = ''IB''"
  "client_calls history_session = [ReqCurrentTime]"
  by (simp_all add: history_session_def lifecycle_defs effect_defs)

lemma day_bar_datetime:
  "bar_datetime sample_lib ''20230628'' = Inr ''20230628''"
  "bar_datetime sample_lib ''20230629'' = Inr ''20230629''"
  by (simp_all add: bar_datetime_def sample_lib_def)

text \<open>
  C2 (a query that is answered by N bars and the end of the data returns these bars in
  order, empties the buffer and clears the request id in flight). The last part fails
  as stated: the query for the daily bars of the stock, answered by two bars, returns
  two bars and leaves \<^verbatim>\<open>history_req\<close> empty, but \<^verbatim>\<open>history_reqid\<close>, which was 0
  before the query, is 1 after it, the id under which the query was sent.
\<close>

theorem C2_request_id_not_cleared:
  "is_QReturn (query_history sample_lib ''now'' daily_request two_bars_delivered history_session)
   \<and> length (q_history
        (query_history sample_lib ''now'' daily_request two_bars_delivered history_session)) = 2
   \<and> history_req (q_state
        (query_history sample_lib ''now'' daily_request two_bars_delivered history_session)) = None
   \<and> history_reqid history_session = 0
   \<and> history_reqid (q_state
        (query_history sample_lib ''now'' daily_request two_bars_delivered history_session)) = 1"
proof -
  have req: "query_history_request sample_lib ''now'' daily_request history_session
     = Return ()
        (history_session\<lparr>history_req := Some daily_request, reqid := 1, history_reqid := 1,
           client_calls := [ReqCurrentTime,
             ReqHistoricalData 1
               (Some ((new_Contract sample_lib)\<lparr>c_exchange := ''SMART'', c_secType := ''STK'',
                  c_currency := ''USD'', c_symbol := ''SPY''\<rparr>))
               [] ''30 D'' ''1 day'' ''TRADES'']\<rparr>)"
    by (simp add: query_history_request_def daily_request_def vt_symbol_of_def
        history_session_fields dict_item_def decode_stock client_call_def Let_def
        spy_contract_def str_of_int_def str_of_nat.simps [of 30] str_of_nat.simps [of 3]
        digit_char_def sample_lib_def)
  show ?thesis
    by (simp add: query_history_def query_history_sched_def history_wait_def req
        two_bars_delivered_def historicalData_def day_bar_def
        day_bar_datetime historicalDataEnd_def notify_history_def query_history_resume_def
        history_session_fields)
qed

lemma historicalData_appends:
  assumes "history_req s = Some req" and "\<not> isl (bar_datetime L (ib_date ib_bar))"
  shows "historicalData L reqId ib_bar s
     = Return () (s\<lparr>history_buf := history_buf s @
          [make_bar L req (gateway_name s) (projr (bar_datetime L (ib_date ib_bar))) ib_bar]\<rparr>)"
  using assms by (cases "bar_datetime L (ib_date ib_bar)") (simp_all add: historicalData_def)

lemma deliver_all_append:
  "deliver_all L (xs @ ys) s
     = (case deliver_all L xs s of
          Raise e s' \<Rightarrow> Raise e s'
        | Return u s' \<Rightarrow> deliver_all L ys s')"
  by (induction xs arbitrary: s) (simp_all split: result.split)

lemma deliver_all_bars:
  assumes "history_req s = Some req"
    and "list_all (\<lambda>p. \<not> isl (bar_datetime L (ib_date (snd p)))) bars"
  shows "deliver_all L (map (\<lambda>p. CbHistoricalData (fst p) (snd p)) bars) s
     = Return ()
         (s\<lparr>history_buf := history_buf s @
              map (\<lambda>p. make_bar L req (gateway_name s)
                          (projr (bar_datetime L (ib_date (snd p)))) (snd p)) bars\<rparr>)"
  using assms
proof (induction bars arbitrary: s)
  case Nil
  then show ?case by simp
next
  case (Cons p bars)
  let ?b = "make_bar L req (gateway_name s) (projr (bar_datetime L (ib_date (snd p)))) (snd p)"
  let ?s1 = "s\<lparr>history_buf := history_buf s @ [?b]\<rparr>"
  from Cons.prems have step: "historicalData L (fst p) (snd p) s = Return () ?s1"
    by (simp add: historicalData_appends)
  have "deliver_all L (map (\<lambda>p. CbHistoricalData (fst p) (snd p)) bars) ?s1
     = Return ()
         (?s1\<lparr>history_buf := history_buf ?s1 @
              map (\<lambda>p. make_bar L req (gateway_name ?s1)
                          (projr (bar_datetime L (ib_date (snd p)))) (snd p)) bars\<rparr>)"
    using Cons.prems by (intro Cons.IH) simp_all
  with step show ?case by simp
qed

lemma await_history_bars:
  assumes "history_waiting s" and "history_req s = Some req"
    and "list_all (\<lambda>p. \<not> isl (bar_datetime L (ib_date (snd p)))) bars"
  shows "await_history L (map (\<lambda>p. CbHistoricalData (fst p) (snd p)) bars @ cbs) s
     = await_history L cbs
         (s\<lparr>history_buf := history_buf s @
              map (\<lambda>p. make_bar L req (gateway_name s)
                          (projr (bar_datetime L (ib_date (snd p)))) (snd p)) bars\<rparr>)"
  using assms
proof (induction bars arbitrary: s)
  case Nil
  then show ?case by simp
next
  case (Cons p bars)
  let ?b = "make_bar L req (gateway_name s) (projr (bar_datetime L (ib_date (snd p)))) (snd p)"
  let ?s1 = "s\<lparr>history_buf := history_buf s @ [?b]\<rparr>"
  from Cons.prems have step: "historicalData L (fst p) (snd p) s = Return () ?s1"
    by (simp add: historicalData_appends)
  have "await_history L (map (\<lambda>p. CbHistoricalData (fst p) (snd p)) bars @ cbs) ?s1
     = await_history L cbs
         (?s1\<lparr>history_buf := history_buf ?s1 @
              map (\<lambda>p. make_bar L req (gateway_name ?s1)
                          (projr (bar_datetime L (ib_date (snd p)))) (snd p)) bars\<rparr>)"
    using Cons.prems by (intro Cons.IH) simp_all
  with step Cons.prems show ?case by simp
qed

lemma await_history_end:
  assumes "history_waiting s"
  shows "await_history L (CbHistoricalDataEnd rid start_str end_str # rest) s
     = Woken (s\<lparr>history_waiting := False\<rparr>) rest"
  by (simp add: historicalDataEnd_def notify_history_def)

lemma query_history_request_sends:
  assumes "contracts s (vt_symbol_of (hr_symbol req) (hr_exchange req)) = Some contract"
    and "generate_ib_contract L (hr_symbol req) (hr_exchange req) = Inr ib_contract"
    and "delta_days L (case hr_end req of Some e \<Rightarrow> e | None \<Rightarrow> now) (hr_start req) = Some d"
    and "hr_interval req = Some interval" and "INTERVAL_VT2IB interval = Some bar_size"
  shows "query_history_request L now req s
     = Return ()
         (s\<lparr>history_req := Some req, reqid := reqid s + 1, history_reqid := reqid s + 1,
            client_calls := client_calls s @
              [ReqHistoricalData (reqid s + 1) ib_contract
                 (case hr_end req of Some e \<Rightarrow> strftime_datetime L e | None \<Rightarrow> [])
                 (str_of_int (min d 180) @ '' D'') bar_size
                 (if cd_product contract \<in> set [SPOT, FOREX] then ''MIDPOINT'' else ''TRADES'')]\<rparr>)"
  using assms by (simp add: query_history_request_def dict_item_def client_call_def Let_def)

text \<open>
  C2 as amended. Let the contract of the request be in the contract table, the symbol
  decode without an exception, the span and the bar size be defined, the buffer be
  empty, and every delivered bar carry a date that converts. Let the receive thread
  handle the end-of-data callback after the caller has begun to wait; of the bars, some
  (\<open>early\<close>) may be handled before that moment and the others (\<open>late\<close>) after it.
  Then the blocking query returns exactly the converted bars in the order of arrival
  and leaves the callbacks after the end undelivered. When it returns, the buffer is
  empty, no request is in flight (\<^verbatim>\<open>history_req\<close> is \<^verbatim>\<open>None\<close>) and no caller waits,
  so the next query can start; \<^verbatim>\<open>history_reqid\<close> keeps the id of the answered query,
  which is the only request sent.
\<close>

theorem C2_query_returns_delivered_bars:
  "contracts s (vt_symbol_of (hr_symbol req) (hr_exchange req)) = Some contract
   \<and> generate_ib_contract L (hr_symbol req) (hr_exchange req) = Inr ib_contract
   \<and> delta_days L (case hr_end req of Some e \<Rightarrow> e | None \<Rightarrow> now) (hr_start req) = Some d
   \<and> hr_interval req = Some interval \<and> INTERVAL_VT2IB interval = Some bar_size
   \<and> history_buf s = []
   \<and> list_all (\<lambda>p. \<not> isl (bar_datetime L (ib_date (snd p)))) (early @ late)
   \<longrightarrow>
   (\<exists>s'. query_history_sched L now req
            (map (\<lambda>p. CbHistoricalData (fst p) (snd p)) early)
            (map (\<lambda>p. CbHistoricalData (fst p) (snd p)) late
               @ CbHistoricalDataEnd rid start_str end_str # rest) s
          = QReturn
              (map (\<lambda>p. make_bar L req (gateway_name s)
                           (projr (bar_datetime L (ib_date (snd p)))) (snd p)) (early @ late))
              s' rest
        \<and> history_buf s' = [] \<and> history_req s' = None \<and> \<not> history_waiting s'
        \<and> history_reqid s' = reqid s + 1 \<and> reqid s' = reqid s + 1
        \<and> client_calls s'
            = client_calls s @
                [ReqHistoricalData (reqid s + 1) ib_contract
                   (case hr_end req of Some e \<Rightarrow> strftime_datetime L e | None \<Rightarrow> [])
                   (str_of_int (min d 180) @ '' D'') bar_size
                   (if cd_product contract \<in> set [SPOT, FOREX] then ''MIDPOINT'' else ''TRADES'')])"
proof
  assume h: "contracts s (vt_symbol_of (hr_symbol req) (hr_exchange req)) = Some contract
   \<and> generate_ib_contract L (hr_symbol req) (hr_exchange req) = Inr ib_contract
   \<and> delta_days L (case hr_end req of Some e \<Rightarrow> e | None \<Rightarrow> now) (hr_start req) = Some d
   \<and> hr_interval req = Some interval \<and> INTERVAL_VT2IB interval = Some bar_size
   \<and> history_buf s = []
   \<and> list_all (\<lambda>p. \<not> isl (bar_datetime L (ib_date (snd p)))) (early @ late)"
  let ?call = "ReqHistoricalData (reqid s + 1) ib_contract
                   (case hr_end req of Some e \<Rightarrow> strftime_datetime L e | None \<Rightarrow> [])
                   (str_of_int (min d 180) @ '' D'') bar_size
                   (if cd_product contract \<in> set [SPOT, FOREX] then ''MIDPOINT'' else ''TRADES'')"
  let ?s1 = "s\<lparr>history_req := Some req, reqid := reqid s + 1, history_reqid := reqid s + 1,
               client_calls := client_calls s @ [?call]\<rparr>"
  let ?mk = "\<lambda>p. make_bar L req (gateway_name s) (projr (bar_datetime L (ib_date (snd p)))) (snd p)"
  let ?s2 = "?s1\<lparr>history_buf := map ?mk early\<rparr>"
  let ?s3 = "?s2\<lparr>history_waiting := True\<rparr>"
  let ?late = "map (\<lambda>p. CbHistoricalData (fst p) (snd p)) late
               @ CbHistoricalDataEnd rid start_str end_str # rest"
  have req: "query_history_request L now req s = Return () ?s1"
    using h by (simp add: query_history_request_sends)
  have "deliver_all L (map (\<lambda>p. CbHistoricalData (fst p) (snd p)) early) ?s1
      = Return ()
          (?s1\<lparr>history_buf := history_buf ?s1 @
              map (\<lambda>p. make_bar L req (gateway_name ?s1)
                          (projr (bar_datetime L (ib_date (snd p)))) (snd p)) early\<rparr>)"
    using h by (intro deliver_all_bars) simp_all
  then have early: "deliver_all L (map (\<lambda>p. CbHistoricalData (fst p) (snd p)) early) ?s1
      = Return () ?s2"
    using h by simp
  have "await_history L ?late ?s3
      = await_history L (CbHistoricalDataEnd rid start_str end_str # rest)
          (?s3\<lparr>history_buf := history_buf ?s3 @
              map (\<lambda>p. make_bar L req (gateway_name ?s3)
                          (projr (bar_datetime L (ib_date (snd p)))) (snd p)) late\<rparr>)"
    using h by (intro await_history_bars) simp_all
  also have "\<dots> = Woken (?s3\<lparr>history_buf := map ?mk (early @ late),
                               history_waiting := False\<rparr>) rest"
    by (simp add: historicalDataEnd_def notify_history_def)
  finally have wait: "await_history L ?late (history_wait ?s2)
      = Woken (?s3\<lparr>history_buf := map ?mk (early @ late), history_waiting := False\<rparr>) rest"
    by (simp add: history_wait_def)
  let ?s' = "?s1\<lparr>history_waiting := False, history_buf := [], history_req := None\<rparr>"
  have "query_history_sched L now req
            (map (\<lambda>p. CbHistoricalData (fst p) (snd p)) early) ?late s
          = QReturn (map ?mk (early @ late)) ?s' rest"
    by (simp only: query_history_sched_def req early wait query_history_resume_def result.case
        wait_result.case prod.case) simp
  then show "\<exists>s'. query_history_sched L now req
            (map (\<lambda>p. CbHistoricalData (fst p) (snd p)) early) ?late s
          = QReturn (map ?mk (early @ late)) s' rest
        \<and> history_buf s' = [] \<and> history_req s' = None \<and> \<not> history_waiting s'
        \<and> history_reqid s' = reqid s + 1 \<and> reqid s' = reqid s + 1
        \<and> client_calls s' = client_calls s @ [?call]"
    by (intro exI [of _ ?s']) simp
qed

theorem C2_query_returns_delivered_bars_witness:
  "contracts history_session (vt_symbol_of (hr_symbol daily_request) (hr_exchange daily_request))
     = Some spy_contract
   \<and> generate_ib_contract sample_lib (hr_symbol daily_request) (hr_exchange daily_request)
       = Inr (Some ((new_Contract sample_lib)\<lparr>c_exchange := ''SMART'',
               c_secType := ''STK'', c_currency := ''USD'', c_symbol := ''SPY''\<rparr>))
   \<and> delta_days sample_lib (case hr_end daily_request of Some e \<Rightarrow> e | None \<Rightarrow> ''now'')
        (hr_start daily_request) = Some 30
   \<and> hr_interval daily_request = Some DAILY \<and> INTERVAL_VT2IB DAILY = Some ''1 day''
   \<and> history_buf history_session = []
   \<and> list_all (\<lambda>p. \<not> isl (bar_datetime sample_lib (ib_date (snd p))))
        ([(1, day_bar ''20230628'' 100)] @ [(1, day_bar ''20230629'' (- 1))])
   \<and> q_history (query_history_sched sample_lib ''now'' daily_request
        [CbHistoricalData 1 (day_bar ''20230628'' 100)]
        [CbHistoricalData 1 (day_bar ''20230629'' (- 1)), CbHistoricalDataEnd 1 [] []]
        history_session)
       = [make_bar sample_lib daily_request ''IB'' ''20230628'' (day_bar ''20230628'' 100),
          make_bar sample_lib daily_request ''IB'' ''20230629'' (day_bar ''20230629'' (- 1))]
   \<and> bd_volume (make_bar sample_lib daily_request ''IB'' ''20230629'' (day_bar ''20230629'' (- 1))) = 0
   \<and> history_buf (q_state (query_history_sched sample_lib ''now'' daily_request
        [CbHistoricalData 1 (day_bar ''20230628'' 100)]
        [CbHistoricalData 1 (day_bar ''20230629'' (- 1)), CbHistoricalDataEnd 1 [] []]
        history_session)) = []
   \<and> history_req (q_state (query_history_sched sample_lib ''now'' daily_request
        [CbHistoricalData 1 (day_bar ''20230628'' 100)]
        [CbHistoricalData 1 (day_bar ''20230629'' (- 1)), CbHistoricalDataEnd 1 [] []]
        history_session)) = None"
proof -
  have c: "contracts history_session (vt_symbol_of (hr_symbol daily_request) (hr_exchange daily_request))
     = Some spy_contract"
    by (simp add: daily_request_def vt_symbol_of_def history_session_fields)
  have d: "generate_ib_contract sample_lib (hr_symbol daily_request) (hr_exchange daily_request)
     = Inr (Some ((new_Contract sample_lib)\<lparr>c_exchange := ''SMART'',
               c_secType := ''STK'', c_currency := ''USD'', c_symbol := ''SPY''\<rparr>))"
    by (simp add: daily_request_def decode_stock)
  have dd: "delta_days sample_lib (case hr_end daily_request of Some e \<Rightarrow> e | None \<Rightarrow> ''now'')
       (hr_start daily_request) = Some 30"
    by (simp add: sample_lib_def)
  have i: "hr_interval daily_request = Some DAILY" "INTERVAL_VT2IB DAILY = Some ''1 day''"
    by (simp_all add: daily_request_def)
  have b: "list_all (\<lambda>p. \<not> isl (bar_datetime sample_lib (ib_date (snd p))))
        ([(1, day_bar ''20230628'' 100)] @ [(1, day_bar ''20230629'' (- 1))])"
    by (simp add: day_bar_def day_bar_datetime)
  have v: "bd_volume (make_bar sample_lib daily_request ''IB'' ''20230629'' (day_bar ''20230629'' (- 1))) = 0"
    by (simp add: make_bar_def day_bar_def sample_lib_def)
  have dt: "ib_date (day_bar date vol) = date" for date vol
    by (simp add: day_bar_def)
  show ?thesis
    using C2_query_returns_delivered_bars [where s = history_session and req = daily_request
        and contract = spy_contract and L = sample_lib and now = "''now''" and d = 30
        and interval = DAILY and bar_size = "''1 day''"
        and ib_contract = "Some ((new_Contract sample_lib)\<lparr>c_exchange := ''SMART'',
               c_secType := ''STK'', c_currency := ''USD'', c_symbol := ''SPY''\<rparr>)"
        and early = "[(1, day_bar ''20230628'' 100)]"
        and late = "[(1, day_bar ''20230629'' (- 1))]"
        and rid = 1 and start_str = "[]" and end_str = "[]" and rest = "[]"]
    by (auto simp add: c d dd i b v history_session_fields dt day_bar_datetime)
qed

text \<open>
  The order of the two threads matters for the end-of-data callback. When the receive
  thread handles it after the request has been sent and before the caller has begun to
  wait, its signal finds no waiter: the caller then waits with all bars in the buffer,
  and nothing in this answer wakes it.
\<close>

lemma completion_before_wait_blocks:
  assumes "contracts s (vt_symbol_of (hr_symbol req) (hr_exchange req)) = Some contract"
    and "generate_ib_contract L (hr_symbol req) (hr_exchange req) = Inr ib_contract"
    and "delta_days L (case hr_end req of Some e \<Rightarrow> e | None \<Rightarrow> now) (hr_start req) = Some d"
    and "hr_interval req = Some interval" and "INTERVAL_VT2IB interval = Some bar_size"
    and "history_buf s = []"
    and "list_all (\<lambda>p. \<not> isl (bar_datetime L (ib_date (snd p)))) bars"
  shows "\<exists>s'. query_history_sched L now req
            (map (\<lambda>p. CbHistoricalData (fst p) (snd p)) bars
               @ [CbHistoricalDataEnd rid start_str end_str]) [] s
          = QBlocked s'
        \<and> history_waiting s' \<and> history_req s' = Some req
        \<and> history_buf s'
            = map (\<lambda>p. make_bar L req (gateway_name s)
                         (projr (bar_datetime L (ib_date (snd p)))) (snd p)) bars"
proof -
  let ?call = "ReqHistoricalData (reqid s + 1) ib_contract
                   (case hr_end req of Some e \<Rightarrow> strftime_datetime L e | None \<Rightarrow> [])
                   (str_of_int (min d 180) @ '' D'') bar_size
                   (if cd_product contract \<in> set [SPOT, FOREX] then ''MIDPOINT'' else ''TRADES'')"
  let ?s1 = "s\<lparr>history_req := Some req, reqid := reqid s + 1, history_reqid := reqid s + 1,
               client_calls := client_calls s @ [?call]\<rparr>"
  let ?mk = "\<lambda>p. make_bar L req (gateway_name s) (projr (bar_datetime L (ib_date (snd p)))) (snd p)"
  let ?s2 = "?s1\<lparr>history_buf := map ?mk bars\<rparr>"
  have req: "query_history_request L now req s = Return () ?s1"
    using assms by (simp add: query_history_request_sends)
  have "deliver_all L (map (\<lambda>p. CbHistoricalData (fst p) (snd p)) bars) ?s1
      = Return ()
          (?s1\<lparr>history_buf := history_buf ?s1 @
              map (\<lambda>p. make_bar L req (gateway_name ?s1)
                          (projr (bar_datetime L (ib_date (snd p)))) (snd p)) bars\<rparr>)"
    using assms by (intro deliver_all_bars) simp_all
  then have bars: "deliver_all L (map (\<lambda>p. CbHistoricalData (fst p) (snd p)) bars) ?s1
      = Return () ?s2"
    using assms by simp
  have early: "deliver_all L (map (\<lambda>p. CbHistoricalData (fst p) (snd p)) bars
               @ [CbHistoricalDataEnd rid start_str end_str]) ?s1
      = Return () (?s2\<lparr>history_waiting := False\<rparr>)"
    by (simp only: deliver_all_append bars result.case)
       (simp add: historicalDataEnd_def notify_history_def)
  have "query_history_sched L now req
            (map (\<lambda>p. CbHistoricalData (fst p) (snd p)) bars
               @ [CbHistoricalDataEnd rid start_str end_str]) [] s
          = QBlocked (?s2\<lparr>history_waiting := True\<rparr>)"
    by (simp only: query_history_sched_def req early result.case)
       (simp add: history_wait_def)
  then show ?thesis by simp
qed

section \<open>Reconnection and the tracked subscriptions\<close>

lemma two_streams_session_fields:
  "subscribed two_streams_session
     = [(sr_vt_symbol stock_request, stock_request), (sr_vt_symbol euro_request, euro_request)]"
  "status two_streams_session"
  "subscribeRequest_queue two_streams_session = []"
  "reqid two_streams_session = 4"
  by (simp_all add: two_streams_session_def subscribeRunner_iter_def subscribeRunner_take_def lifecycle_defs effect_defs
      stock_request_def euro_request_def decode_stock decode_euro sr_vt_symbol_def
      vt_symbol_of_def Let_def)

text \<open>
  C3 (error 1101 makes both flags true and subscribes every tracked instrument again;
  error 1102 makes both flags true and subscribes nothing; with two tracked
  subscriptions, 1101 followed by the handshake gives exactly two new requests). After
  1101 both flags are true and the queue of the worker has grown by the tracked
  requests, in their order, while the tracked set is empty. After 1102 both flags are
  true and the queue, the tracked set and the calls to the broker are as before. With
  two tracked requests, 1101 followed by \<^verbatim>\<open>nextValidId\<close> leaves exactly these two at
  the end of the queue and sends only the request for the time. And when the two were
  tracked under their own keys, the queue was empty and both decode, two passes of the
  worker send exactly one contract query and one market-data request for each, under
  four fresh request ids, and track the two again.
\<close>

theorem C3_reconnect_resubscription:
  "(order_ready (error_cb reqId 1101 msg s) \<and> data_ready (error_cb reqId 1101 msg s)
      \<and> subscribed (error_cb reqId 1101 msg s) = []
      \<and> subscribeRequest_queue (error_cb reqId 1101 msg s)
          = subscribeRequest_queue s @ map snd (subscribed s))
   \<and> (order_ready (error_cb reqId 1102 msg s) \<and> data_ready (error_cb reqId 1102 msg s)
      \<and> subscribeRequest_queue (error_cb reqId 1102 msg s) = subscribeRequest_queue s
      \<and> subscribed (error_cb reqId 1102 msg s) = subscribed s
      \<and> client_calls (error_cb reqId 1102 msg s) = client_calls s)
   \<and> (subscribed s = [(k1, r1), (k2, r2)] \<longrightarrow>
        subscribeRequest_queue (nextValidId orderId (error_cb reqId 1101 msg s))
          = subscribeRequest_queue s @ [r1, r2]
      \<and> subscribed (nextValidId orderId (error_cb reqId 1101 msg s)) = []
      \<and> client_calls (nextValidId orderId (error_cb reqId 1101 msg s))
          = client_calls s @ [ReqCurrentTime])
   \<and> (subscribed s = [(sr_vt_symbol r1, r1), (sr_vt_symbol r2, r2)]
        \<and> sr_vt_symbol r1 \<noteq> sr_vt_symbol r2
        \<and> status s \<and> subscribeRequest_queue s = []
        \<and> EXCHANGE_VT2IB (sr_exchange r1) \<noteq> None \<and> EXCHANGE_VT2IB (sr_exchange r2) \<noteq> None
        \<and> generate_ib_contract L (sr_symbol r1) (sr_exchange r1) = Inr (Some c1)
        \<and> generate_ib_contract L (sr_symbol r2) (sr_exchange r2) = Inr (Some c2) \<longrightarrow>
        is_Next (subscribeRunner L [t1, t2] (nextValidId orderId (error_cb reqId 1101 msg s)))
      \<and> client_calls (step_state
            (subscribeRunner L [t1, t2] (nextValidId orderId (error_cb reqId 1101 msg s))))
          = client_calls s @
              [ReqCurrentTime,
               ReqContractDetails (reqid s + 1) c1, ReqMktData (reqid s + 2) c1,
               ReqContractDetails (reqid s + 3) c2, ReqMktData (reqid s + 4) c2]
      \<and> subscribeRequest_queue (step_state
            (subscribeRunner L [t1, t2] (nextValidId orderId (error_cb reqId 1101 msg s)))) = []
      \<and> subscribed (step_state
            (subscribeRunner L [t1, t2] (nextValidId orderId (error_cb reqId 1101 msg s))))
          = [(sr_vt_symbol r1, r1), (sr_vt_symbol r2, r2)])"
proof (intro conjI impI)
  show "order_ready (error_cb reqId 1101 msg s)" "data_ready (error_cb reqId 1101 msg s)"
    "subscribed (error_cb reqId 1101 msg s) = []"
    "subscribeRequest_queue (error_cb reqId 1101 msg s)
          = subscribeRequest_queue s @ map snd (subscribed s)"
    by (simp_all add: error_cb_def resubscribe_all_eq effect_defs Let_def)
next
  show "order_ready (error_cb reqId 1102 msg s)" "data_ready (error_cb reqId 1102 msg s)"
    "subscribeRequest_queue (error_cb reqId 1102 msg s) = subscribeRequest_queue s"
    "subscribed (error_cb reqId 1102 msg s) = subscribed s"
    "client_calls (error_cb reqId 1102 msg s) = client_calls s"
    by (simp_all add: error_cb_def resubscribe_all_eq effect_defs Let_def)
next
  assume "subscribed s = [(k1, r1), (k2, r2)]"
  then show "subscribeRequest_queue (nextValidId orderId (error_cb reqId 1101 msg s))
          = subscribeRequest_queue s @ [r1, r2]"
    "subscribed (nextValidId orderId (error_cb reqId 1101 msg s)) = []"
    "client_calls (nextValidId orderId (error_cb reqId 1101 msg s))
          = client_calls s @ [ReqCurrentTime]"
    by (simp_all add: error_cb_def nextValidId_def resubscribe_all_eq effect_defs Let_def)
next
  assume h: "subscribed s = [(sr_vt_symbol r1, r1), (sr_vt_symbol r2, r2)]
        \<and> sr_vt_symbol r1 \<noteq> sr_vt_symbol r2
        \<and> status s \<and> subscribeRequest_queue s = []
        \<and> EXCHANGE_VT2IB (sr_exchange r1) \<noteq> None \<and> EXCHANGE_VT2IB (sr_exchange r2) \<noteq> None
        \<and> generate_ib_contract L (sr_symbol r1) (sr_exchange r1) = Inr (Some c1)
        \<and> generate_ib_contract L (sr_symbol r2) (sr_exchange r2) = Inr (Some c2)"
  let ?s2 = "nextValidId orderId (error_cb reqId 1101 msg s)"
  have pre: "status ?s2" "data_ready ?s2" "subscribeRequest_queue ?s2 = [r1, r2]"
    "subscribed ?s2 = []" "reqid ?s2 = reqid s"
    "client_calls ?s2 = client_calls s @ [ReqCurrentTime]"
    using h by (simp_all add: error_cb_def nextValidId_def resubscribe_all_eq effect_defs Let_def)
  obtain s3 where it1: "subscribeRunner_iter L t1 ?s2 = Next s3"
    and s3: "status s3" "data_ready s3" "subscribeRequest_queue s3 = [r2]"
      "subscribed s3 = [(sr_vt_symbol r1, r1)]" "reqid s3 = reqid s + 2"
      "client_calls s3 = client_calls s @
         [ReqCurrentTime, ReqContractDetails (reqid s + 1) c1, ReqMktData (reqid s + 2) c1]"
    using h pre by (auto simp add: subscribeRunner_iter_def subscribeRunner_take_def effect_defs Let_def)
  obtain s4 where it2: "subscribeRunner_iter L t2 s3 = Next s4"
    and s4: "subscribeRequest_queue s4 = []"
      "subscribed s4 = [(sr_vt_symbol r1, r1), (sr_vt_symbol r2, r2)]"
      "client_calls s4 = client_calls s @
         [ReqCurrentTime, ReqContractDetails (reqid s + 1) c1, ReqMktData (reqid s + 2) c1,
          ReqContractDetails (reqid s + 3) c2, ReqMktData (reqid s + 4) c2]"
    using h s3 by (auto simp add: subscribeRunner_iter_def subscribeRunner_take_def effect_defs Let_def)
  have run: "subscribeRunner L [t1, t2] ?s2 = Next s4"
    by (simp add: it1 it2)
  show "is_Next (subscribeRunner L [t1, t2] ?s2)"
    "client_calls (step_state (subscribeRunner L [t1, t2] ?s2))
          = client_calls s @
              [ReqCurrentTime,
               ReqContractDetails (reqid s + 1) c1, ReqMktData (reqid s + 2) c1,
               ReqContractDetails (reqid s + 3) c2, ReqMktData (reqid s + 4) c2]"
    "subscribeRequest_queue (step_state (subscribeRunner L [t1, t2] ?s2)) = []"
    "subscribed (step_state (subscribeRunner L [t1, t2] ?s2))
          = [(sr_vt_symbol r1, r1), (sr_vt_symbol r2, r2)]"
    unfolding run by (simp_all add: s4)
qed

theorem C3_reconnect_resubscription_witness:
  "subscribed two_streams_session
     = [(sr_vt_symbol stock_request, stock_request), (sr_vt_symbol euro_request, euro_request)]
   \<and> sr_vt_symbol stock_request \<noteq> sr_vt_symbol euro_request
   \<and> status two_streams_session \<and> subscribeRequest_queue two_streams_session = []
   \<and> subscribeRequest_queue (error_cb (- 1) 1102 ''restored'' two_streams_session) = []
   \<and> subscribeRequest_queue (nextValidId 9 (error_cb (- 1) 1101 ''restored'' two_streams_session))
       = [stock_request, euro_request]
   \<and> client_calls (step_state (subscribeRunner sample_lib [''t2'', ''t3'']
         (nextValidId 9 (error_cb (- 1) 1101 ''restored'' two_streams_session))))
       = client_calls two_streams_session @
           [ReqCurrentTime,
            ReqContractDetails 5 ((new_Contract sample_lib)\<lparr>c_exchange := ''SMART'',
               c_secType := ''STK'', c_currency := ''USD'', c_symbol := ''SPY''\<rparr>),
            ReqMktData 6 ((new_Contract sample_lib)\<lparr>c_exchange := ''SMART'',
               c_secType := ''STK'', c_currency := ''USD'', c_symbol := ''SPY''\<rparr>),
            ReqContractDetails 7 ((new_Contract sample_lib)\<lparr>c_exchange := ''IDEALPRO'',
               c_secType := ''CASH'', c_currency := ''USD'', c_symbol := ''EUR''\<rparr>),
            ReqMktData 8 ((new_Contract sample_lib)\<lparr>c_exchange := ''IDEALPRO'',
               c_secType := ''CASH'', c_currency := ''USD'', c_symbol := ''EUR''\<rparr>)]"
proof -
  have ne: "sr_vt_symbol stock_request \<noteq> sr_vt_symbol euro_request"
    by (simp add: sr_vt_symbol_def vt_symbol_of_def stock_request_def euro_request_def)
  have ex: "EXCHANGE_VT2IB (sr_exchange stock_request) \<noteq> None"
    "EXCHANGE_VT2IB (sr_exchange euro_request) \<noteq> None"
    by (simp_all add: stock_request_def euro_request_def)
  have dec: "generate_ib_contract sample_lib (sr_symbol stock_request) (sr_exchange stock_request)
      = Inr (Some ((new_Contract sample_lib)\<lparr>c_exchange := ''SMART'',
               c_secType := ''STK'', c_currency := ''USD'', c_symbol := ''SPY''\<rparr>))"
    "generate_ib_contract sample_lib (sr_symbol euro_request) (sr_exchange euro_request)
      = Inr (Some ((new_Contract sample_lib)\<lparr>c_exchange := ''IDEALPRO'',
               c_secType := ''CASH'', c_currency := ''USD'', c_symbol := ''EUR''\<rparr>))"
    by (simp_all add: stock_request_def euro_request_def decode_stock decode_euro)
  show ?thesis
    using C3_reconnect_resubscription [where s = two_streams_session and reqId = "- 1"
        and msg = "''restored''" and ?k1.0 = "sr_vt_symbol stock_request" and ?r1.0 = stock_request
        and ?k2.0 = "sr_vt_symbol euro_request" and ?r2.0 = euro_request and orderId = 9
        and L = sample_lib and ?t1.0 = "''t2''" and ?t2.0 = "''t3''"
        and ?c1.0 = "(new_Contract sample_lib)\<lparr>c_exchange := ''SMART'',
               c_secType := ''STK'', c_currency := ''USD'', c_symbol := ''SPY''\<rparr>"
        and ?c2.0 = "(new_Contract sample_lib)\<lparr>c_exchange := ''IDEALPRO'',
               c_secType := ''CASH'', c_currency := ''USD'', c_symbol := ''EUR''\<rparr>"]
    by (simp add: two_streams_session_fields ne ex dec)
qed

section \<open>The subscription worker: gate, retention and the end of the thread\<close>

text \<open>
  What the worker does while it runs: it leaves the queue alone while data is not ready,
  a request arrives at the end of the queue, a request that is tracked already is
  dropped without a trace, and as long as no request makes the decoder raise, one pass
  takes one request, so that as many passes as there are requests empty the queue.
\<close>

lemma subscribeRunner_iter_not_ready:
  "status s \<Longrightarrow> \<not> data_ready s \<Longrightarrow> subscribeRunner_iter L now s = Next s"
  by (simp add: subscribeRunner_iter_def subscribeRunner_take_def)

lemma subscribeRunner_not_ready:
  "status s \<Longrightarrow> \<not> data_ready s \<Longrightarrow> subscribeRunner L nows s = Next s"
  by (induction nows) (simp_all add: subscribeRunner_iter_not_ready)

lemma subscribe_queue:
  "subscribeRequest_queue (subscribe req s) = subscribeRequest_queue s @ [req]"
  by (simp add: subscribe_def)

lemma subscribeRunner_iter_duplicate:
  assumes "status s" and "data_ready s" and "subscribeRequest_queue s = req # rest"
    and "EXCHANGE_VT2IB (sr_exchange req) \<noteq> None"
    and "sr_vt_symbol req \<in> set (map fst (subscribed s))"
  shows "subscribeRunner_iter L now s = Next (s\<lparr>subscribeRequest_queue := rest\<rparr>)"
  using assms by (auto simp add: subscribeRunner_iter_def subscribeRunner_take_def Let_def)

lemma subscribeRunner_iter_consumes:
  assumes "status s" and "data_ready s" and "subscribeRequest_queue s = req # rest"
    and "\<not> isl (generate_ib_contract L (sr_symbol req) (sr_exchange req))"
  shows "is_Next (subscribeRunner_iter L now s)
    \<and> status (step_state (subscribeRunner_iter L now s))
    \<and> data_ready (step_state (subscribeRunner_iter L now s))
    \<and> subscribeRequest_queue (step_state (subscribeRunner_iter L now s)) = rest"
  using assms
  by (cases "generate_ib_contract L (sr_symbol req) (sr_exchange req)")
     (auto simp add: subscribeRunner_iter_def subscribeRunner_take_def effect_defs Let_def split: option.splits)

lemma subscribeRunner_drains_queue:
  assumes "status s" and "data_ready s"
    and "list_all (\<lambda>req. \<not> isl (generate_ib_contract L (sr_symbol req) (sr_exchange req)))
           (subscribeRequest_queue s)"
    and "length nows = length (subscribeRequest_queue s)"
  shows "is_Next (subscribeRunner L nows s)
    \<and> subscribeRequest_queue (step_state (subscribeRunner L nows s)) = []"
  using assms
proof (induction nows arbitrary: s)
  case Nil
  then show ?case by simp
next
  case (Cons now nows)
  then obtain req rest where q: "subscribeRequest_queue s = req # rest"
    by (cases "subscribeRequest_queue s") auto
  with Cons.prems have ok: "\<not> isl (generate_ib_contract L (sr_symbol req) (sr_exchange req))"
    by simp
  from subscribeRunner_iter_consumes [OF Cons.prems(1,2) q ok, of now]
  obtain s' where it: "subscribeRunner_iter L now s = Next s'"
    and s': "status s'" "data_ready s'" "subscribeRequest_queue s' = rest"
    by (cases "subscribeRunner_iter L now s") auto
  have "is_Next (subscribeRunner L nows s')
    \<and> subscribeRequest_queue (step_state (subscribeRunner L nows s')) = []"
    using Cons.prems q s' by (intro Cons.IH) simp_all
  then show ?case by (simp add: it)
qed

lemma queued_session_fields:
  "status (queued_session :: ('n, 'dt) IbApi)"
  "data_ready (queued_session :: ('n, 'dt) IbApi)"
  "subscribe_threads (queued_session :: ('n, 'dt) IbApi) = 1"
  "subscribed (queued_session :: ('n, 'dt) IbApi) = []"
  "subscribeRequest_queue (queued_session :: ('n, 'dt) IbApi) = [malformed_request, stock_request]"
  by (simp_all add: queued_session_def lifecycle_defs effect_defs)

text \<open>
  C4 (requests queued while data is not ready are retained and processed once it is).
  The code does not have the last part. In \<open>queued_session\<close> two requests were queued
  before the handshake and one worker runs. Its first pass takes the request with the
  malformed multiplier and leaves the loop with ValueError, so the thread ends: the
  stock request stays in the queue, no request has gone to the broker beyond the one
  for the time, no worker is left, and further passes change nothing.
\<close>

theorem C4_malformed_request_ends_worker:
  "subscribeRunner L (now # nows) queued_session
     = Abort ValueError
         (queued_session\<lparr>subscribeRequest_queue := [stock_request],
            subscribed := [(sr_vt_symbol malformed_request, malformed_request)]\<rparr>)
   \<and> client_calls (queued_session :: ('n, 'dt) IbApi) = [ReqCurrentTime]
   \<and> subscribe_threads (worker_pass L now queued_session) = 0
   \<and> subscribeRequest_queue (worker_pass L now queued_session) = [stock_request]
   \<and> worker_pass L now' (worker_pass L now queued_session) = worker_pass L now queued_session"
proof -
  have iter: "subscribeRunner_iter L now queued_session
     = Abort ValueError
         (queued_session\<lparr>subscribeRequest_queue := [stock_request],
            subscribed := [(sr_vt_symbol malformed_request, malformed_request)]\<rparr>)"
    by (simp add: subscribeRunner_iter_def subscribeRunner_take_def queued_session_fields malformed_multiplier_raises
        malformed_request_def Let_def)
  have calls: "client_calls (queued_session :: ('n, 'dt) IbApi) = [ReqCurrentTime]"
    by (simp add: queued_session_def lifecycle_defs effect_defs)
  show ?thesis
    by (simp add: iter calls worker_pass_def queued_session_fields)
qed

section \<open>Placing orders\<close>

text \<open>
  C5 (\<^verbatim>\<open>send_order\<close> returns the empty string without a broker call under four
  conditions, and otherwise submits the order). As stated this fails: in a ready
  session, a limit order on SMART for the symbol \<^verbatim>\<open>SPY\<close>, which has no currency and
  security type, passes the four conditions and is still not submitted. The call
  returns the empty string, makes no broker call and emits nothing; it has used up the
  order id 2.
\<close>

theorem C5_undecodable_symbol_not_submitted:
  "status (session_ready ''IB'' :: (int, string) IbApi)
   \<and> order_ready (session_ready ''IB'' :: (int, string) IbApi)
   \<and> EXCHANGE_VT2IB (or_exchange (limit_buy ''SPY'' SMART (10::int) 25)) = Some ''SMART''
   \<and> ORDERTYPE_VT2IB (or_type (limit_buy ''SPY'' SMART (10::int) 25)) = Some ''LMT''
   \<and> send_order sample_lib ''t1'' (limit_buy ''SPY'' SMART 10 25) (session_ready ''IB'')
       = Return [] ((session_ready ''IB'')\<lparr>orderid := 2\<rparr>)
   \<and> client_calls ((session_ready ''IB'' :: (int, string) IbApi)\<lparr>orderid := 2\<rparr>)
       = client_calls (session_ready ''IB'' :: (int, string) IbApi)
   \<and> gateway_events ((session_ready ''IB'' :: (int, string) IbApi)\<lparr>orderid := 2\<rparr>)
       = gateway_events (session_ready ''IB'' :: (int, string) IbApi)"
  by (simp add: send_order_def limit_buy_def session_ready_flags decode_too_short)

text \<open>
  C5 as amended. \<^verbatim>\<open>send_order\<close> returns the empty string and leaves the state as it
  is when the connection status is false; it returns the empty string and only writes a
  log message when the order is not ready, when the exchange has no mapping or when
  the order type has none. Otherwise it takes the next order id and decodes the symbol.
  When the symbol does not decode, it returns the empty string with no broker call, no
  order record and no log message, the order id being used up. When the symbol decodes
  and the direction has a mapping, it places the order under the new id, requests the
  next id, emits a local order record with that id and the status Submitting, and
  returns the reference of that record, which is the gateway name, a dot and the id.
\<close>

theorem C5_send_order_gates_and_submission:
  "(\<not> status s \<longrightarrow> send_order L now req s = Return [] s)
   \<and> (status s \<and> \<not> order_ready s \<longrightarrow>
        send_order L now req s
          = Return [] (write_log (LogOrderNotReady (vt_symbol_of (or_symbol req) (or_exchange req))
                                    (or_direction req) (or_price req) (or_volume req)) s))
   \<and> (status s \<and> order_ready s \<and> EXCHANGE_VT2IB (or_exchange req) = None \<longrightarrow>
        send_order L now req s
          = Return [] (write_log (LogUnsupportedExchange (or_exchange req)) s))
   \<and> (status s \<and> order_ready s \<and> EXCHANGE_VT2IB (or_exchange req) \<noteq> None
        \<and> ORDERTYPE_VT2IB (or_type req) = None \<longrightarrow>
        send_order L now req s
          = Return [] (write_log (LogUnsupportedOrderType (or_type req)) s))
   \<and> (status s \<and> order_ready s \<and> EXCHANGE_VT2IB (or_exchange req) \<noteq> None
        \<and> ORDERTYPE_VT2IB (or_type req) \<noteq> None
        \<and> generate_ib_contract L (or_symbol req) (or_exchange req) = Inr None \<longrightarrow>
        send_order L now req s = Return [] (s\<lparr>orderid := orderid s + 1\<rparr>))
   \<and> (status s \<and> order_ready s \<and> EXCHANGE_VT2IB (or_exchange req) \<noteq> None
        \<and> ORDERTYPE_VT2IB (or_type req) = Some order_type
        \<and> generate_ib_contract L (or_symbol req) (or_exchange req) = Inr (Some ib_contract)
        \<and> DIRECTION_VT2IB (or_direction req) = Some action \<longrightarrow>
        send_order L now req s
          = Return (gateway_name s @ ''.'' @ str_of_int (orderid s + 1))
              (s\<lparr>orderid := orderid s + 1,
                 client_calls := client_calls s @
                   [PlaceOrder (orderid s + 1) ib_contract
                      ((new_Order L)
                         \<lparr>io_orderId := orderid s + 1, io_clientId := clientid s,
                          io_action := action, io_orderType := order_type,
                          io_totalQuantity := or_volume req, io_account := account s,
                          io_outsideRth := True,
                          io_lmtPrice := (if or_type req = LIMIT then or_price req
                                          else unset_double L),
                          io_auxPrice := (if or_type req = STOP then or_price req
                                          else unset_double L)\<rparr>),
                    ReqIds 1],
                 gateway_events := gateway_events s @
                   [OnOrder ((create_order_data L req (str_of_int (orderid s + 1)) (gateway_name s))
                              \<lparr>od_datetime := Some now\<rparr>)]\<rparr>)
        \<and> od_status ((create_order_data L req (str_of_int (orderid s + 1)) (gateway_name s))
                              \<lparr>od_datetime := Some now\<rparr>) = SUBMITTING
        \<and> od_vt_orderid ((create_order_data L req (str_of_int (orderid s + 1)) (gateway_name s))
                              \<lparr>od_datetime := Some now\<rparr>)
            = gateway_name s @ ''.'' @ str_of_int (orderid s + 1))"
proof (intro conjI impI)
  assume "\<not> status s"
  then show "send_order L now req s = Return [] s"
    by (simp add: send_order_def)
next
  assume "status s \<and> \<not> order_ready s"
  then show "send_order L now req s
      = Return [] (write_log (LogOrderNotReady (vt_symbol_of (or_symbol req) (or_exchange req))
                                (or_direction req) (or_price req) (or_volume req)) s)"
    by (simp add: send_order_def)
next
  assume "status s \<and> order_ready s \<and> EXCHANGE_VT2IB (or_exchange req) = None"
  then show "send_order L now req s
      = Return [] (write_log (LogUnsupportedExchange (or_exchange req)) s)"
    by (simp add: send_order_def)
next
  assume "status s \<and> order_ready s \<and> EXCHANGE_VT2IB (or_exchange req) \<noteq> None
        \<and> ORDERTYPE_VT2IB (or_type req) = None"
  then show "send_order L now req s
      = Return [] (write_log (LogUnsupportedOrderType (or_type req)) s)"
    by (auto simp add: send_order_def)
next
  assume "status s \<and> order_ready s \<and> EXCHANGE_VT2IB (or_exchange req) \<noteq> None
        \<and> ORDERTYPE_VT2IB (or_type req) \<noteq> None
        \<and> generate_ib_contract L (or_symbol req) (or_exchange req) = Inr None"
  then show "send_order L now req s = Return [] (s\<lparr>orderid := orderid s + 1\<rparr>)"
    by (auto simp add: send_order_def Let_def)
next
  assume h: "status s \<and> order_ready s \<and> EXCHANGE_VT2IB (or_exchange req) \<noteq> None
        \<and> ORDERTYPE_VT2IB (or_type req) = Some order_type
        \<and> generate_ib_contract L (or_symbol req) (or_exchange req) = Inr (Some ib_contract)
        \<and> DIRECTION_VT2IB (or_direction req) = Some action"
  then show "send_order L now req s
          = Return (gateway_name s @ ''.'' @ str_of_int (orderid s + 1))
              (s\<lparr>orderid := orderid s + 1,
                 client_calls := client_calls s @
                   [PlaceOrder (orderid s + 1) ib_contract
                      ((new_Order L)
                         \<lparr>io_orderId := orderid s + 1, io_clientId := clientid s,
                          io_action := action, io_orderType := order_type,
                          io_totalQuantity := or_volume req, io_account := account s,
                          io_outsideRth := True,
                          io_lmtPrice := (if or_type req = LIMIT then or_price req
                                          else unset_double L),
                          io_auxPrice := (if or_type req = STOP then or_price req
                                          else unset_double L)\<rparr>),
                    ReqIds 1],
                 gateway_events := gateway_events s @
                   [OnOrder ((create_order_data L req (str_of_int (orderid s + 1)) (gateway_name s))
                              \<lparr>od_datetime := Some now\<rparr>)]\<rparr>)"
    by (auto simp add: send_order_def Let_def dict_item_def effect_defs create_order_data_def
        od_vt_orderid_def new_Order_def)
next
  show "od_status ((create_order_data L req (str_of_int (orderid s + 1)) (gateway_name s))
                              \<lparr>od_datetime := Some now\<rparr>) = SUBMITTING"
    by (simp add: create_order_data_def)
next
  show "od_vt_orderid ((create_order_data L req (str_of_int (orderid s + 1)) (gateway_name s))
                              \<lparr>od_datetime := Some now\<rparr>)
            = gateway_name s @ ''.'' @ str_of_int (orderid s + 1)"
    by (simp add: create_order_data_def od_vt_orderid_def)
qed

theorem C5_send_order_gates_and_submission_witness:
  "send_order sample_lib ''t1'' (limit_buy ''SPY-USD-STK'' SMART 10 25) (init_IbApi ''IB'')
     = Return [] (init_IbApi ''IB'')
   \<and> send_order sample_lib ''t1'' (limit_buy ''SPY-USD-STK'' SMART 10 25) (session_start ''IB'')
     = Return [] (write_log (LogOrderNotReady ''SPY-USD-STK.SMART'' LONG 25 10) (session_start ''IB''))
   \<and> send_order sample_lib ''t1'' (limit_buy ''SPY-USD-STK'' (OTHER_EXCHANGE ''SHFE'') 10 25)
        (session_ready ''IB'')
     = Return [] (write_log (LogUnsupportedExchange (OTHER_EXCHANGE ''SHFE'')) (session_ready ''IB''))
   \<and> send_order sample_lib ''t1'' ((limit_buy ''SPY-USD-STK'' SMART 10 25)\<lparr>or_type := FAK\<rparr>)
        (session_ready ''IB'')
     = Return [] (write_log (LogUnsupportedOrderType FAK) (session_ready ''IB''))
   \<and> send_order sample_lib ''t1'' (limit_buy ''SPY'' SMART 10 25) (session_ready ''IB'')
     = Return [] ((session_ready ''IB'')\<lparr>orderid := 2\<rparr>)
   \<and> returned (send_order sample_lib ''t1'' (limit_buy ''SPY-USD-STK'' SMART 10 25)
        (session_ready ''IB'')) = ''IB.2''
   \<and> client_calls (state_of (send_order sample_lib ''t1'' (limit_buy ''SPY-USD-STK'' SMART 10 25)
        (session_ready ''IB'')))
     = [ReqCurrentTime,
        PlaceOrder 2
          ((new_Contract sample_lib)\<lparr>c_exchange := ''SMART'', c_secType := ''STK'',
             c_currency := ''USD'', c_symbol := ''SPY''\<rparr>)
          ((new_Order sample_lib)\<lparr>io_orderId := 2, io_action := ''BUY'', io_orderType := ''LMT'',
             io_totalQuantity := 10, io_outsideRth := True, io_lmtPrice := 25\<rparr>),
        ReqIds 1]"
proof -
  let ?L = "sample_lib"
  let ?ok = "limit_buy ''SPY-USD-STK'' SMART (10::int) 25"
  have two: "str_of_int 2 = ''2''"
    by (simp add: str_of_int_def str_of_nat.simps [of 2] digit_char_def)
  have calls: "client_calls (session_ready ''IB'' :: (int, string) IbApi) = [ReqCurrentTime]"
    by (simp add: lifecycle_defs effect_defs)
  have more: "gateway_name (session_ready ''IB'' :: (int, string) IbApi) = ''IB''"
    "clientid (session_ready ''IB'' :: (int, string) IbApi) = 0"
    "account (session_ready ''IB'' :: (int, string) IbApi) = []"
    by (simp_all add: lifecycle_defs effect_defs)
  show ?thesis
    using C5_send_order_gates_and_submission [where s = "init_IbApi ''IB''" and L = ?L and now = "''t1''" and req = ?ok]
      C5_send_order_gates_and_submission [where s = "session_start ''IB''" and L = ?L and now = "''t1''" and req = ?ok]
      C5_send_order_gates_and_submission [where s = "session_ready ''IB''" and L = ?L and now = "''t1''"
        and req = "limit_buy ''SPY-USD-STK'' (OTHER_EXCHANGE ''SHFE'') 10 25"]
      C5_send_order_gates_and_submission [where s = "session_ready ''IB''" and L = ?L and now = "''t1''"
        and req = "(limit_buy ''SPY-USD-STK'' SMART 10 25)\<lparr>or_type := FAK\<rparr>"]
      C5_send_order_gates_and_submission [where s = "session_ready ''IB''" and L = ?L and now = "''t1''"
        and req = "limit_buy ''SPY'' SMART 10 25"]
      C5_send_order_gates_and_submission [where s = "session_ready ''IB''" and L = ?L and now = "''t1''" and req = ?ok
        and order_type = "''LMT''" and action = "''BUY''"
        and ib_contract = "(new_Contract sample_lib)\<lparr>c_exchange := ''SMART'',
             c_secType := ''STK'', c_currency := ''USD'', c_symbol := ''SPY''\<rparr>"]
    by (simp add: session_start_flags session_ready_flags limit_buy_def decode_too_short
        decode_stock vt_symbol_of_def two calls more new_Order_def)
qed

section \<open>The order tracker: status and order parameters\<close>

lemma tracked_session_orders:
  "orders tracked_session ''7''
     = Some ((new_OrderData sample_lib ''SI-202006-USD-FUT'' NYMEX LIMIT ''7'' LONG 10 ''IB'')
              \<lparr>od_price := 25\<rparr>)"
  "orders tracked_session ''8'' = None"
  by (simp_all add: tracked_session_def openOrder_def sample_order_def new_Order_def
      ORDERTYPE_IB2VT_def DIRECTION_IB2VT_def EXCHANGE_IB2VT_def str_of_int_7
      silver_future_def codec_defs lifecycle_defs effect_defs new_OrderData_def Let_def)

text \<open>
  C6 (an unrecognised status string leaves the status of a known order as it is; an
  order-status callback for an unknown order id is dropped). For every state and every
  callback: a status string outside \<^verbatim>\<open>STATUS_IB2VT\<close> changes the status of no
  record; on a known order, \<^verbatim>\<open>Submitted\<close> followed by \<^verbatim>\<open>XYZ-unknown\<close> leaves the
  status NotTraded, and \<^verbatim>\<open>Filled\<close> after them leaves it AllTraded; for an order id
  without a record the callback returns the state as it was, so it creates no record,
  emits nothing and, being a function that cannot raise, signals no error.
\<close>

theorem C6_unknown_status_leaves_status:
  "(STATUS_IB2VT status_str = None \<longrightarrow>
      map_option od_status (orders (orderStatus L orderId status_str filled s) k)
        = map_option od_status (orders s k))
   \<and> (orders s (str_of_int orderId) \<noteq> None \<longrightarrow>
        map_option od_status
          (orders (orderStatus L orderId ''XYZ-unknown'' f2
                    (orderStatus L orderId ''Submitted'' f1 s)) (str_of_int orderId))
          = Some NOTTRADED
      \<and> map_option od_status
          (orders (orderStatus L orderId ''Filled'' f3
                    (orderStatus L orderId ''XYZ-unknown'' f2
                      (orderStatus L orderId ''Submitted'' f1 s))) (str_of_int orderId))
          = Some ALLTRADED)
   \<and> (orders s (str_of_int orderId) = None \<longrightarrow>
        orderStatus L orderId status_str filled s = s)"
  by (auto simp add: orderStatus_def STATUS_IB2VT_def effect_defs Let_def split: option.splits)

theorem C6_unknown_status_leaves_status_witness:
  "STATUS_IB2VT ''XYZ-unknown'' = None
   \<and> map_option od_status (orders tracked_session ''7'') = Some SUBMITTING
   \<and> map_option od_status
        (orders (orderStatus sample_lib 7 ''XYZ-unknown'' 0 tracked_session) ''7'')
       = Some SUBMITTING
   \<and> map_option od_status
        (orders (orderStatus sample_lib 7 ''Filled'' 10
                  (orderStatus sample_lib 7 ''XYZ-unknown'' 0
                    (orderStatus sample_lib 7 ''Submitted'' 0 tracked_session))) ''7'')
       = Some ALLTRADED
   \<and> orders tracked_session ''8'' = None
   \<and> orderStatus sample_lib 8 ''Filled'' 10 tracked_session = tracked_session"
proof -
  have u: "STATUS_IB2VT ''XYZ-unknown'' = None"
    by (simp add: STATUS_IB2VT_def)
  show ?thesis
    using C6_unknown_status_leaves_status [where status_str = "''XYZ-unknown''"
        and L = sample_lib and orderId = 7 and filled = 0 and s = tracked_session
        and k = "''7''" and ?f1.0 = 0 and ?f2.0 = 0 and ?f3.0 = 10]
      C6_unknown_status_leaves_status [where status_str = "''Filled''"
        and L = sample_lib and orderId = 8 and filled = 10 and s = tracked_session
        and k = "''7''" and ?f1.0 = 0 and ?f2.0 = 0 and ?f3.0 = 10]
    by (simp add: tracked_session_orders str_of_int_7 str_of_int_8 u new_OrderData_def)
qed

text \<open>
  C7 (an order-opened callback for a tracked order does not overwrite the status). As
  stated this fails: the tracked order 7 has the status NotTraded and the traded volume
  4 after an order-status callback; the next order-opened callback for the same id
  leaves it with the status Submitting and the traded volume 0.
\<close>

theorem C7_open_order_resets_status:
  "map_option od_status (orders (orderStatus sample_lib 7 ''Submitted'' 4 tracked_session) ''7'')
     = Some NOTTRADED
   \<and> map_option od_traded (orders (orderStatus sample_lib 7 ''Submitted'' 4 tracked_session) ''7'')
     = Some 4
   \<and> is_Return (openOrder sample_lib 7 (silver_future sample_lib (PyInt 1000)) sample_order
        (orderStatus sample_lib 7 ''Submitted'' 4 tracked_session))
   \<and> map_option od_status
        (orders (state_of (openOrder sample_lib 7 (silver_future sample_lib (PyInt 1000))
           sample_order (orderStatus sample_lib 7 ''Submitted'' 4 tracked_session))) ''7'')
     = Some SUBMITTING
   \<and> map_option od_traded
        (orders (state_of (openOrder sample_lib 7 (silver_future sample_lib (PyInt 1000))
           sample_order (orderStatus sample_lib 7 ''Submitted'' 4 tracked_session))) ''7'')
     = Some 0"
  by (simp add: orderStatus_def str_of_int_7 tracked_session_orders STATUS_IB2VT_def effect_defs
      openOrder_def sample_order_def new_Order_def ORDERTYPE_IB2VT_def DIRECTION_IB2VT_def
      dict_item_def new_OrderData_def sample_lib_def Let_def)

text \<open>
  C7 as amended: an order-opened callback whose order type and action are in the mapping
  tables replaces the record under its order id by a new record built from the
  callback: the symbol, exchange, type, direction, volume and price of the callback,
  the status Submitting and no traded volume, whatever the record was before. It emits
  no event and sends nothing to the broker, and the records of the other orders stay as
  they are.
\<close>

theorem C7_open_order_replaces_record:
  "ORDERTYPE_IB2VT (io_orderType ib_order) = Some type
   \<and> DIRECTION_IB2VT (io_action ib_order) = Some direction \<longrightarrow>
     is_Return (openOrder L orderId ib_contract ib_order s)
     \<and> orders (state_of (openOrder L orderId ib_contract ib_order s)) (str_of_int orderId)
        = Some ((new_OrderData L (generate_symbol L ib_contract)
                   (case EXCHANGE_IB2VT (c_exchange ib_contract) of None \<Rightarrow> SMART | Some e \<Rightarrow> e)
                   type (str_of_int orderId) direction (io_totalQuantity ib_order) (gateway_name s))
                 \<lparr>od_price := (if type = LIMIT then io_lmtPrice ib_order
                                else if type = STOP then io_auxPrice ib_order
                                else num_zero L)\<rparr>)
     \<and> map_option od_status
          (orders (state_of (openOrder L orderId ib_contract ib_order s)) (str_of_int orderId))
        = Some SUBMITTING
     \<and> map_option od_traded
          (orders (state_of (openOrder L orderId ib_contract ib_order s)) (str_of_int orderId))
        = Some (num_zero L)
     \<and> gateway_events (state_of (openOrder L orderId ib_contract ib_order s)) = gateway_events s
     \<and> client_calls (state_of (openOrder L orderId ib_contract ib_order s)) = client_calls s
     \<and> (k \<noteq> str_of_int orderId \<longrightarrow>
          orders (state_of (openOrder L orderId ib_contract ib_order s)) k = orders s k)"
  by (simp add: openOrder_def dict_item_def new_OrderData_def Let_def)

theorem C7_open_order_replaces_record_witness:
  "ORDERTYPE_IB2VT (io_orderType sample_order) = Some LIMIT
   \<and> DIRECTION_IB2VT (io_action sample_order) = Some LONG
   \<and> map_option od_status
        (orders (state_of (openOrder sample_lib 7 (silver_future sample_lib (PyInt 1000))
           sample_order (orderStatus sample_lib 7 ''Submitted'' 4 tracked_session))) (str_of_int 7))
     = Some SUBMITTING
   \<and> gateway_events (state_of (openOrder sample_lib 7 (silver_future sample_lib (PyInt 1000))
           sample_order (orderStatus sample_lib 7 ''Submitted'' 4 tracked_session)))
     = gateway_events (orderStatus sample_lib 7 ''Submitted'' 4 tracked_session)"
proof -
  have t: "ORDERTYPE_IB2VT (io_orderType sample_order) = Some LIMIT"
    by (simp add: sample_order_def new_Order_def ORDERTYPE_IB2VT_def)
  have d: "DIRECTION_IB2VT (io_action sample_order) = Some LONG"
    by (simp add: sample_order_def new_Order_def DIRECTION_IB2VT_def)
  show ?thesis
    using C7_open_order_replaces_record [where ib_order = sample_order and type = LIMIT
        and direction = LONG and L = sample_lib and orderId = 7
        and ib_contract = "silver_future sample_lib (PyInt 1000)"
        and s = "orderStatus sample_lib 7 ''Submitted'' 4 tracked_session" and k = "''8''"]
    by (auto simp add: t d)
qed

section \<open>The tick aggregator: when a snapshot is published\<close>

lemma getattr_setattr:
  "getattr_tick a (setattr_tick b v t) = (if a = b then v else getattr_tick a t)"
  by (cases a; cases b; simp)

lemma getattr_td_datetime [simp]:
  "getattr_tick a (t\<lparr>td_datetime := d\<rparr>) = getattr_tick a t"
  by (cases a) simp_all

lemma getattr_td_name [simp]:
  "getattr_tick a (t\<lparr>td_name := n\<rparr>) = getattr_tick a t"
  by (cases a) simp_all

lemma getattr_td_last_price:
  "a \<noteq> last_price \<Longrightarrow> getattr_tick a (t\<lparr>td_last_price := v\<rparr>) = getattr_tick a t"
  by (cases a) simp_all

lemma setattr_symbol [simp]:
  "td_symbol (setattr_tick b v t) = td_symbol t"
  "td_exchange (setattr_tick b v t) = td_exchange t"
  by (cases b; simp)+

lemma tickPrice_events:
  "gateway_events (state_of (tickPrice L now reqId tickType price s)) = gateway_events s"
  by (simp add: tickPrice_def Let_def split: option.splits)

lemma deliver_publishes_no_tick:
  "\<not> is_CbTickSize cb \<Longrightarrow>
     filter is_OnTick (gateway_events (state_of (deliver L cb s)))
       = filter is_OnTick (gateway_events s)"
proof (cases cb)
  case (CbConnectAck stored)
  then show ?thesis
    by (simp add: connectAck_def load_contract_data_def fold_emit_contracts effect_defs
        no_tick_among_contracts)
next
  case CbConnectionClosed
  then show ?thesis by (simp add: connectionClosed_def effect_defs)
next
  case (CbNextValidId orderId)
  then show ?thesis by (simp add: nextValidId_def resubscribe_all_eq effect_defs Let_def)
next
  case (CbError reqId code msg)
  then show ?thesis by (simp add: error_cb_def resubscribe_all_eq effect_defs Let_def)
next
  case (CbTickPrice now reqId tickType price)
  then show ?thesis by (simp add: tickPrice_def Let_def split: option.splits)
next
  case (CbTickSize now reqId tickType sz)
  assume "\<not> is_CbTickSize cb"
  with CbTickSize show ?thesis by simp
next
  case (CbOrderStatus orderId st filled)
  then show ?thesis by (simp add: orderStatus_def effect_defs Let_def split: option.splits)
next
  case (CbOpenOrder orderId c ord)
  then show ?thesis by (simp add: openOrder_def dict_item_def Let_def split: option.splits)
next
  case (CbHistoricalData reqId ib_bar)
  then show ?thesis by (simp add: historicalData_def split: sum.splits option.splits)
next
  case (CbHistoricalDataEnd reqId a b)
  then show ?thesis by (simp add: historicalDataEnd_def effect_defs)
qed


lemma streaming_session_fields:
  "ticks streaming_session 2 = Some (new_TickData sample_lib ''SPY-USD-STK'' SMART ''t0'' ''IB'')"
  "tick_exchange streaming_session 2 = Some SMART"
  "gateway_events streaming_session
     = [WriteLog LogConnected, WriteLog LogContractsLoaded,
        WriteLog (LogSubscribeBefore 2 ''SPY-USD-STK''), WriteLog (LogSubscribeAfter 2 ''SPY-USD-STK'')]"
  by (simp_all add: streaming_session_def subscribeRunner_iter_def subscribeRunner_take_def lifecycle_defs effect_defs
      stock_request_def decode_stock sr_vt_symbol_def Let_def)

text \<open>
  C8 (a tick snapshot is published after a size update and never after a price update
  alone). No callback but the size callback adds a tick event, and a price callback
  adds no event at all, whatever its arguments. For an instrument that streams under
  \<open>reqId\<close> and a size callback whose field code is one of \<^verbatim>\<open>TICKFIELD_IB2VT\<close>, a
  price callback followed by that size callback returns and adds exactly one event:
  the tick snapshot, which is the record kept for the instrument, carries the size in
  its field and the time of the size callback, and carries the price in the field of
  the price callback's code when that field is another one than the size's and is not
  the last price of a currency pair or spot commodity, which the aggregator computes
  itself.
\<close>

theorem C8_tick_published_after_size_update:
  "(\<not> is_CbTickSize cb \<longrightarrow>
      filter is_OnTick (gateway_events (state_of (deliver L cb s)))
        = filter is_OnTick (gateway_events s))
   \<and> gateway_events (state_of (tickPrice L t1 reqId priceType price s)) = gateway_events s
   \<and> (ticks s reqId = Some tick \<and> tick_exchange s reqId = Some exchange
        \<and> TICKFIELD_IB2VT sizeType = Some size_attr \<longrightarrow>
      is_Return (tickPrice L t1 reqId priceType price s)
      \<and> (\<exists>snapshot.
            gateway_events (tickSize t2 reqId sizeType sz
                (state_of (tickPrice L t1 reqId priceType price s)))
              = gateway_events s @ [OnTick snapshot]
          \<and> ticks (tickSize t2 reqId sizeType sz
                (state_of (tickPrice L t1 reqId priceType price s))) reqId = Some snapshot
          \<and> getattr_tick size_attr snapshot = sz
          \<and> td_datetime snapshot = t2
          \<and> (\<forall>price_attr.
                TICKFIELD_IB2VT priceType = Some price_attr \<and> price_attr \<noteq> size_attr
                \<and> (price_attr = last_price \<longrightarrow>
                      exchange \<noteq> IDEALPRO \<and> \<not> str_contains ''CMDTY'' (td_symbol tick))
                \<longrightarrow> getattr_tick price_attr snapshot = price)))"
proof (intro conjI impI)
  assume "\<not> is_CbTickSize cb"
  then show "filter is_OnTick (gateway_events (state_of (deliver L cb s)))
        = filter is_OnTick (gateway_events s)"
    by (rule deliver_publishes_no_tick)
next
  show "gateway_events (state_of (tickPrice L t1 reqId priceType price s)) = gateway_events s"
    by (rule tickPrice_events)
next
  assume h: "ticks s reqId = Some tick \<and> tick_exchange s reqId = Some exchange
        \<and> TICKFIELD_IB2VT sizeType = Some size_attr"
  then show "is_Return (tickPrice L t1 reqId priceType price s)"
    by (simp add: tickPrice_def Let_def split: option.splits)
next
  assume h: "ticks s reqId = Some tick \<and> tick_exchange s reqId = Some exchange
        \<and> TICKFIELD_IB2VT sizeType = Some size_attr"
  show "\<exists>snapshot.
            gateway_events (tickSize t2 reqId sizeType sz
                (state_of (tickPrice L t1 reqId priceType price s)))
              = gateway_events s @ [OnTick snapshot]
          \<and> ticks (tickSize t2 reqId sizeType sz
                (state_of (tickPrice L t1 reqId priceType price s))) reqId = Some snapshot
          \<and> getattr_tick size_attr snapshot = sz
          \<and> td_datetime snapshot = t2
          \<and> (\<forall>price_attr.
                TICKFIELD_IB2VT priceType = Some price_attr \<and> price_attr \<noteq> size_attr
                \<and> (price_attr = last_price \<longrightarrow>
                      exchange \<noteq> IDEALPRO \<and> \<not> str_contains ''CMDTY'' (td_symbol tick))
                \<longrightarrow> getattr_tick price_attr snapshot = price)"
  proof (cases "TICKFIELD_IB2VT priceType")
    case None
    with h show ?thesis
      by (simp add: tickPrice_def tickSize_def emit_def getattr_setattr Let_def)
  next
    case (Some pa)
    with h show ?thesis
      by (auto simp add: tickPrice_def tickSize_def emit_def getattr_setattr Let_def
          getattr_td_last_price split: option.splits)
  qed
qed

theorem C8_tick_published_after_size_update_witness:
  "ticks streaming_session 2 = Some (new_TickData sample_lib ''SPY-USD-STK'' SMART ''t0'' ''IB'')
   \<and> tick_exchange streaming_session 2 = Some SMART
   \<and> TICKFIELD_IB2VT 0 = Some bid_volume_1
   \<and> TICKFIELD_IB2VT 1 = Some bid_price_1
   \<and> \<not> is_CbTickSize (CbTickPrice ''t1'' 2 1 (100 :: int))
   \<and> filter is_OnTick (gateway_events
         (state_of (deliver sample_lib (CbTickPrice ''t1'' 2 1 100) streaming_session))) = []
   \<and> gateway_events (state_of (tickPrice sample_lib ''t1'' 2 1 100 streaming_session))
       = gateway_events streaming_session
   \<and> (\<exists>snapshot.
         gateway_events (tickSize ''t2'' 2 0 5
             (state_of (tickPrice sample_lib ''t1'' 2 1 100 streaming_session)))
           = gateway_events streaming_session @ [OnTick snapshot]
       \<and> td_bid_volume_1 snapshot = 5 \<and> td_bid_price_1 snapshot = 100
       \<and> td_datetime snapshot = ''t2'')"
proof -
  have f: "TICKFIELD_IB2VT 0 = Some bid_volume_1" "TICKFIELD_IB2VT 1 = Some bid_price_1"
    by (simp_all add: TICKFIELD_IB2VT_def)
  show ?thesis
    using C8_tick_published_after_size_update [where L = sample_lib and ?t1.0 = "''t1''"
        and reqId = 2 and priceType = 1 and price = 100 and s = streaming_session
        and tick = "new_TickData sample_lib ''SPY-USD-STK'' SMART ''t0'' ''IB''"
        and exchange = SMART and sizeType = 0 and size_attr = bid_volume_1
        and ?t2.0 = "''t2''" and sz = 5 and cb = "CbTickPrice ''t1'' 2 1 100"]
    by (auto simp add: f streaming_session_fields)
qed

section \<open>Exceptions that leave the adapter\<close>

text \<open>
  C9 (no inbound operation lets an exception reach the caller). The code does not have
  this property. In a ready session whose contract table is empty, every historical
  query raises KeyError: \<^verbatim>\<open>self.contracts[req.vt_symbol]\<close> fails before the test
  \<^verbatim>\<open>if not contract\<close> that was meant to log and return the empty list. And in the
  same session an order for a symbol whose multiplier field is not a number raises
  ValueError, which \<^verbatim>\<open>generate_ib_contract\<close> does not catch.
\<close>

theorem C9_exceptions_reach_the_caller:
  "query_history L now req cbs (session_ready gw) = QRaise KeyError (session_ready gw)
   \<and> send_order L now' (limit_buy ''SI-202006-10x-USD-FUT'' NYMEX vol price) (session_ready gw)
     = Raise ValueError ((session_ready gw)\<lparr>orderid := 2\<rparr>)"
proof
  have "contracts (session_ready gw :: ('a, 'b) IbApi) = Map.empty"
    by (simp add: lifecycle_defs effect_defs)
  then show "query_history L now req cbs (session_ready gw) = QRaise KeyError (session_ready gw)"
    by (simp add: query_history_def query_history_sched_def query_history_request_def
        dict_item_def)
next
  show "send_order L now' (limit_buy ''SI-202006-10x-USD-FUT'' NYMEX vol price) (session_ready gw)
     = Raise ValueError ((session_ready gw)\<lparr>orderid := 2\<rparr>)"
    by (simp add: send_order_def limit_buy_def session_ready_flags malformed_multiplier_raises)
qed

section \<open>Worker threads\<close>

text \<open>
  C10 (one worker thread per session, never two at once). The code does not have this
  property: \<^verbatim>\<open>nextValidId\<close> starts a thread on every call. In a ready session a
  limit order for a stock is placed; \<^verbatim>\<open>send_order\<close> ends with \<^verbatim>\<open>reqIds(1)\<close>, which
  the broker answers with another \<^verbatim>\<open>nextValidId\<close>. After that callback two worker
  threads are alive while the connection status has been true throughout, and a pass
  of the loop goes on to the next pass. The same holds for a reconnect: when the
  connection closes and the handshake of the new connection completes before the
  worker has made a pass, the worker has not seen the status false, and the handshake
  starts a second one beside it.
\<close>

theorem C10_second_handshake_starts_second_worker:
  "subscribe_threads (session_ready gw :: ('n, 'dt) IbApi) = 1
   \<and> is_Return (send_order L now (limit_buy ''SPY-USD-STK'' SMART vol price) (session_ready gw))
   \<and> last (client_calls
        (state_of (send_order L now (limit_buy ''SPY-USD-STK'' SMART vol price) (session_ready gw))))
     = ReqIds 1
   \<and> status (nextValidId 2
        (state_of (send_order L now (limit_buy ''SPY-USD-STK'' SMART vol price) (session_ready gw))))
   \<and> subscribe_threads (nextValidId 2
        (state_of (send_order L now (limit_buy ''SPY-USD-STK'' SMART vol price) (session_ready gw))))
     = 2
   \<and> is_Next (subscribeRunner_iter L now' (nextValidId 2
        (state_of (send_order L now (limit_buy ''SPY-USD-STK'' SMART vol price) (session_ready gw)))))
   \<and> status (nextValidId 1 (connectAck [] (connectionClosed (session_ready gw)))
               :: ('n, 'dt) IbApi)
   \<and> subscribe_threads (nextValidId 1 (connectAck [] (connectionClosed (session_ready gw)))
               :: ('n, 'dt) IbApi) = 2"
proof -
  have first: "subscribe_threads (session_ready gw :: ('n, 'dt) IbApi) = 1"
    by (simp add: session_ready_flags)
  have order: "is_Return (send_order L now (limit_buy ''SPY-USD-STK'' SMART vol price) (session_ready gw))
   \<and> last (client_calls
        (state_of (send_order L now (limit_buy ''SPY-USD-STK'' SMART vol price) (session_ready gw))))
     = ReqIds 1
   \<and> status (nextValidId 2
        (state_of (send_order L now (limit_buy ''SPY-USD-STK'' SMART vol price) (session_ready gw))))
   \<and> subscribe_threads (nextValidId 2
        (state_of (send_order L now (limit_buy ''SPY-USD-STK'' SMART vol price) (session_ready gw))))
     = 2
   \<and> is_Next (subscribeRunner_iter L now' (nextValidId 2
        (state_of (send_order L now (limit_buy ''SPY-USD-STK'' SMART vol price) (session_ready gw)))))"
    by (simp add: send_order_def limit_buy_def session_ready_flags decode_stock dict_item_def
        Let_def effect_defs nextValidId_def resubscribe_all_eq subscribeRunner_iter_def subscribeRunner_take_def
        split: list.split)
  have reconnect: "status (nextValidId 1 (connectAck [] (connectionClosed (session_ready gw)))
               :: ('n, 'dt) IbApi)
   \<and> subscribe_threads (nextValidId 1 (connectAck [] (connectionClosed (session_ready gw)))
               :: ('n, 'dt) IbApi) = 2"
    by (simp add: lifecycle_defs effect_defs Let_def)
  from first order reconnect show ?thesis by blast
qed

end
